theory Spec2Isabelle
  imports Main "HOL-Library.Multiset"
begin

section \<open>JavaScript values, messages and errors\<close>

text \<open>
  The admin client of \<^verbatim>\<open>src/admin/index.js\<close> receives untyped JavaScript values,
  so its arguments are modelled as values of \<open>jsval\<close>. Numbers are integers here
  (node ids, error codes, enum members and partition ids are integers; NaN and
  fractions do not occur in what follows). An object is an association list of its own
  properties.
\<close>

datatype jsval =
    JUndefined
  | JNull
  | JBool bool
  | JNum int
  | JStr string
  | JArr "jsval list"
  | JObj "(string \<times> jsval) list"

text \<open>\<^verbatim>\<open>typeof v\<close>.\<close>

fun typeof :: "jsval \<Rightarrow> string" where
  "typeof JUndefined = ''undefined''"
| "typeof JNull = ''object''"
| "typeof (JBool b) = ''boolean''"
| "typeof (JNum n) = ''number''"
| "typeof (JStr s) = ''string''"
| "typeof (JArr xs) = ''object''"
| "typeof (JObj kvs) = ''object''"

text \<open>Truthiness, as \<^verbatim>\<open>if (v)\<close> reads it.\<close>

fun truthy :: "jsval \<Rightarrow> bool" where
  "truthy JUndefined = False"
| "truthy JNull = False"
| "truthy (JBool b) = b"
| "truthy (JNum n) = (n \<noteq> 0)"
| "truthy (JStr s) = (s \<noteq> [])"
| "truthy (JArr xs) = True"
| "truthy (JObj kvs) = True"

text \<open>\<^verbatim>\<open>!v\<close>.\<close>

fun falsy :: "jsval \<Rightarrow> bool" where
  "falsy v = (\<not> truthy v)"

text \<open>\<^verbatim>\<open>Array.isArray(v)\<close> and the elements of an array.\<close>

fun isArray :: "jsval \<Rightarrow> bool" where
  "isArray (JArr xs) = True"
| "isArray v = False"

fun elems :: "jsval \<Rightarrow> jsval list" where
  "elems (JArr xs) = xs"
| "elems v = []"

text \<open>
  A template literal is kept as its parts: the literal text, an interpolated value
  \<^verbatim>\<open>${v}\<close> and an interpolated \<^verbatim>\<open>${JSON.stringify(v)}\<close>. Two messages are
  equal when they were built from the same text and the same values.
\<close>

datatype part = Lit string | Interp jsval | Json jsval

type_synonym message = "part list"

text \<open>One entry of a delete-groups response: \<^verbatim>\<open>{ groupId, errorCode, error }\<close>.\<close>

datatype group_result = GroupResult (groupId: string) (errorCode: int) (error: jsval)

text \<open>
  The errors that can travel through the admin client. \<open>KafkaJSProtocolError\<close> is the
  typed error a collaborator throws; it carries the \<^verbatim>\<open>type\<close> discriminator the
  \<^verbatim>\<open>catch\<close> blocks compare. \<open>TypeError\<close> is what the JavaScript runtime raises
  when a property of \<^verbatim>\<open>null\<close> or \<^verbatim>\<open>undefined\<close> is read.

  The class \<^verbatim>\<open>KafkaJSDeleteGroupsError\<close> is declared in \<^verbatim>\<open>src/errors.js\<close>, which is
  not among the sources; whether its instances have a \<^verbatim>\<open>type\<close> property is therefore
  a parameter, carried as the first argument of the constructor.
\<close>

datatype kerror =
    KafkaJSNonRetriableError message
  | KafkaJSDeleteGroupsError "string option" message "group_result list"
  | KafkaJSTimeout message
  | KafkaJSProtocolError string
  | TypeError

text \<open>\<^verbatim>\<open>e.type\<close>; \<open>None\<close> stands for \<^verbatim>\<open>undefined\<close>.\<close>

fun etype :: "kerror \<Rightarrow> string option" where
  "etype (KafkaJSProtocolError t) = Some t"
| "etype (KafkaJSDeleteGroupsError t m gs) = t"
| "etype (KafkaJSNonRetriableError m) = None"
| "etype (KafkaJSTimeout m) = None"
| "etype TypeError = None"

text \<open>
  Reading a property: \<^verbatim>\<open>v.k\<close> and the destructuring \<^verbatim>\<open>({ k }) => ...\<close>. Both raise a
  TypeError on \<^verbatim>\<open>null\<close> and \<^verbatim>\<open>undefined\<close>; on an object they give the property or
  \<^verbatim>\<open>undefined\<close>; the property names read in this file are not properties of numbers,
  booleans, strings or arrays, which give \<^verbatim>\<open>undefined\<close>.
\<close>

fun get_prop :: "jsval \<Rightarrow> string \<Rightarrow> kerror + jsval" where
  "get_prop JUndefined k = Inl TypeError"
| "get_prop JNull k = Inl TypeError"
| "get_prop (JObj kvs) k = Inr (case map_of kvs k of Some v \<Rightarrow> v | None \<Rightarrow> JUndefined)"
| "get_prop v k = Inr JUndefined"

text \<open>
  \<^verbatim>\<open>xs.some(p)\<close> and \<^verbatim>\<open>xs.find(p)\<close> with a callback that may throw: both stop at the
  first element the callback accepts, and an exception of the callback leaves the loop.
  \<^verbatim>\<open>find\<close> gives \<^verbatim>\<open>undefined\<close> when no element is accepted.
\<close>

fun js_some :: "(jsval \<Rightarrow> kerror + bool) \<Rightarrow> jsval list \<Rightarrow> kerror + bool" where
  "js_some p [] = Inr False"
| "js_some p (x # xs) =
     (case p x of Inl e \<Rightarrow> Inl e | Inr b \<Rightarrow> if b then Inr True else js_some p xs)"

fun js_find :: "(jsval \<Rightarrow> kerror + bool) \<Rightarrow> jsval list \<Rightarrow> kerror + jsval" where
  "js_find p [] = Inr JUndefined"
| "js_find p (x # xs) =
     (case p x of Inl e \<Rightarrow> Inl e | Inr b \<Rightarrow> if b then Inr x else js_find p xs)"

section \<open>Collaborators, calls and the retrier\<close>

text \<open>
  Every request to a collaborator (the cluster, a broker handle, the ephemeral consumer)
  is recorded in a trace. A broker handle is identified by its node id.
\<close>

datatype call =
    RefreshMetadata
  | RefreshMetadataIfNecessary
  | AddTargetTopic jsval
  | ClusterMetadata
  | FindControllerBroker
  | FindGroupCoordinator string
  | FetchTopicsOffset jsval bool "nat list"
  | BrokerCreateAcls nat jsval
  | BrokerCreateTopics nat jsval jsval jsval
  | BrokerMetadata nat "jsval list"
  | BrokerDeleteGroups nat "string list"
  | ConsumerSubscribe jsval
  | ConsumerDescribeGroup
  | ConsumerOnFetch
  | ConsumerRun
  | ConsumerPause jsval
  | ConsumerSeek jsval nat int
  | ConsumerStop

text \<open>
  What the collaborators answer with. Offsets are 64-bit values that this layer only
  copies; they are integers here. The metadata of a partition is kept to its id and
  leader, the only fields read.
\<close>

datatype partition_metadata = PartitionMetadata (partitionId: nat) (leader: int)

datatype partition_offset = PartitionOffset (po_partition: nat) (po_offset: int)

datatype topic_offsets = TopicOffsets (to_topic: jsval) (to_partitions: "partition_offset list")

record cluster_metadata =
  md_brokers :: "jsval list"
  md_clusterId :: jsval
  md_controllerId :: jsval

text \<open>
  The collaborators are outside this layer. Each method is a function of the calls made
  so far (so that the answer may change from one attempt to the next) and of its
  arguments; it answers with a value or throws. \<^verbatim>\<open>findTopicPartitionMetadata\<close> and
  \<^verbatim>\<open>defaultOffset\<close> are synchronous reads of the cluster handle and are not recorded
  as calls.
\<close>

record cluster =
  refreshMetadata :: "call list \<Rightarrow> kerror + unit"
  refreshMetadataIfNecessary :: "call list \<Rightarrow> kerror + unit"
  addTargetTopic :: "call list \<Rightarrow> jsval \<Rightarrow> kerror + unit"
  metadata :: "call list \<Rightarrow> kerror + cluster_metadata"
  findTopicPartitionMetadata :: "call list \<Rightarrow> jsval \<Rightarrow> kerror + partition_metadata list"
  defaultOffset :: "bool \<Rightarrow> int"
  fetchTopicsOffset :: "call list \<Rightarrow> jsval \<Rightarrow> bool \<Rightarrow> nat list \<Rightarrow> kerror + topic_offsets list"
  findControllerBroker :: "call list \<Rightarrow> kerror + nat"
  findGroupCoordinator :: "call list \<Rightarrow> string \<Rightarrow> kerror + nat"
  broker_createAcls :: "call list \<Rightarrow> nat \<Rightarrow> jsval \<Rightarrow> kerror + unit"
  broker_createTopics :: "call list \<Rightarrow> nat \<Rightarrow> jsval \<Rightarrow> jsval \<Rightarrow> jsval \<Rightarrow> kerror + unit"
  broker_metadata :: "call list \<Rightarrow> nat \<Rightarrow> jsval list \<Rightarrow> kerror + jsval"
  broker_deleteGroups :: "call list \<Rightarrow> nat \<Rightarrow> string list \<Rightarrow> kerror + group_result list"

text \<open>
  The ephemeral consumer of \<^verbatim>\<open>setOffsets\<close>. After \<^verbatim>\<open>run\<close> was started, the
  consumer either emits its first FETCH event, or \<^verbatim>\<open>run\<close> rejects, or neither ever
  happens. \<^verbatim>\<open>pause\<close> and \<^verbatim>\<open>seek\<close> are synchronous bookkeeping calls of the
  consumer and are taken not to throw.
\<close>

datatype run_signal = FetchEvent | RunRejected kerror | NoSignal

record consumer =
  subscribe :: "call list \<Rightarrow> kerror + unit"
  describeGroup :: "call list \<Rightarrow> kerror + jsval"
  run_signal :: "call list \<Rightarrow> run_signal"
  stop :: "call list \<Rightarrow> kerror + unit"

text \<open>
  An \<^verbatim>\<open>async\<close> computation: from the trace so far to a value or a thrown error, and
  the extended trace. \<open>request c f\<close> is one awaited call \<open>c\<close> whose answer is \<open>f\<close> of the
  history; \<open>bind_io\<close> is sequencing, where an exception skips the rest.
\<close>

type_synonym 'a io = "call list \<Rightarrow> (kerror + 'a) \<times> call list"

definition return_io :: "'a \<Rightarrow> 'a io" where
  "return_io v tr = (Inr v, tr)"

definition throw_io :: "kerror \<Rightarrow> 'a io" where
  "throw_io e tr = (Inl e, tr)"

definition bind_io :: "'a io \<Rightarrow> ('a \<Rightarrow> 'b io) \<Rightarrow> 'b io" where
  "bind_io m f tr = (case m tr of (Inl e, tr') \<Rightarrow> (Inl e, tr') | (Inr v, tr') \<Rightarrow> f v tr')"

definition request :: "call \<Rightarrow> (call list \<Rightarrow> kerror + 'a) \<Rightarrow> 'a io" where
  "request c f tr = (f tr, tr @ [c])"

text \<open>
  What one run of the function given to the retrier does: it returns a value, throws
  (the \<^verbatim>\<open>catch\<close> block rethrows), or calls \<^verbatim>\<open>bail(e)\<close>.
\<close>

datatype 'a outcome = Return 'a | Throw kerror | Bail kerror

text \<open>
  Modelled from the spec: \<^verbatim>\<open>createRetry\<close> of \<^verbatim>\<open>src/retry\<close> is not among the sources.
  Section 4.1: the operation may return a value, throw a retriable error, or end fatally
  through \<^verbatim>\<open>bail\<close>; the number of attempts is bounded; once the retries are exhausted
  the last error is propagated unchanged. \<open>retrier n fn s\<close> runs \<open>fn\<close> with at most \<open>n\<close>
  retries after the first attempt. The attempt count and the elapsed time that the
  source passes to \<open>fn\<close> are only logged there, and logging is left out.
\<close>

fun retrier :: "nat \<Rightarrow> ('s \<Rightarrow> 'a outcome \<times> 's) \<Rightarrow> 's \<Rightarrow> (kerror + 'a) \<times> 's" where
  "retrier 0 fn s =
     (case fn s of
        (Return v, s') \<Rightarrow> (Inr v, s')
      | (Throw e, s') \<Rightarrow> (Inl e, s')
      | (Bail e, s') \<Rightarrow> (Inl e, s'))"
| "retrier (Suc n) fn s =
     (case fn s of
        (Return v, s') \<Rightarrow> (Inr v, s')
      | (Throw e, s') \<Rightarrow> retrier n fn s'
      | (Bail e, s') \<Rightarrow> (Inl e, s'))"

text \<open>
  The shape shared by the \<^verbatim>\<open>try { ... } catch (e) { ... }\<close> bodies: the error types in
  \<open>retriable\<close> are rethrown, every other error goes to \<^verbatim>\<open>bail\<close>.
\<close>

definition rethrow_or_bail :: "string list \<Rightarrow> kerror \<Rightarrow> 'a outcome" where
  "rethrow_or_bail retriable e =
     (case etype e of
        Some t \<Rightarrow> if t \<in> set retriable then Throw e else Bail e
      | None \<Rightarrow> Bail e)"

section \<open>createAcls\<close>

text \<open>
  The tables \<^verbatim>\<open>OPERATION_TYPES\<close>, \<^verbatim>\<open>RESOURCE_PATTERN_TYPES\<close>, \<^verbatim>\<open>PERMISSION_TYPES\<close> and
  \<^verbatim>\<open>RESOURCE_TYPES\<close> live in \<^verbatim>\<open>src/protocol\<close>, outside the sources; their values
  (\<^verbatim>\<open>Object.values(...)\<close>) are parameters.
\<close>

record protocol_enums =
  validOperationTypes :: "jsval list"
  validResourcePatternTypes :: "jsval list"
  validPermissionTypes :: "jsval list"
  validResourceTypes :: "jsval list"

text \<open>
  \<^verbatim>\<open>acl.some(({ f }) => typeof f !== 'string')\<close> followed by the \<^verbatim>\<open>throw\<close> of a
  fixed message.
\<close>

definition some_not_string :: "string \<Rightarrow> jsval list \<Rightarrow> kerror + bool" where
  "some_not_string f xs =
     js_some (\<lambda>x. case get_prop x f of Inl e \<Rightarrow> Inl e | Inr v \<Rightarrow> Inr (typeof v \<noteq> ''string'')) xs"

definition check_strings :: "string \<Rightarrow> message \<Rightarrow> jsval list \<Rightarrow> kerror option" where
  "check_strings f msg xs =
     (case some_not_string f xs of
        Inl e \<Rightarrow> Some e
      | Inr b \<Rightarrow> if b then Some (KafkaJSNonRetriableError msg) else None)"

text \<open>
  \<^verbatim>\<open>invalidType = acl.find(i => !valid.includes(i.f))\<close>, then
  \<^verbatim>\<open>if (invalidType) throw ... `${label}${invalidType.f}: ${JSON.stringify(invalidType)}`\<close>.
\<close>

definition find_invalid :: "jsval list \<Rightarrow> string \<Rightarrow> jsval list \<Rightarrow> kerror + jsval" where
  "find_invalid valid f xs =
     js_find (\<lambda>i. case get_prop i f of Inl e \<Rightarrow> Inl e | Inr v \<Rightarrow> Inr (v \<notin> set valid)) xs"

definition field_of :: "jsval \<Rightarrow> string \<Rightarrow> jsval" where
  "field_of v f = (case get_prop v f of Inl e \<Rightarrow> JUndefined | Inr w \<Rightarrow> w)"

definition check_enum :: "jsval list \<Rightarrow> string \<Rightarrow> string \<Rightarrow> jsval list \<Rightarrow> kerror option" where
  "check_enum valid f label xs =
     (case find_invalid valid f xs of
        Inl e \<Rightarrow> Some e
      | Inr invalidType \<Rightarrow>
          if truthy invalidType
          then Some (KafkaJSNonRetriableError
                 [Lit label, Interp (field_of invalidType f), Lit '': '', Json invalidType])
          else None)"

text \<open>The statements before the retrier run in order; the first \<^verbatim>\<open>throw\<close> wins.\<close>

fun first_raised :: "kerror option list \<Rightarrow> kerror option" where
  "first_raised [] = None"
| "first_raised (Some e # cs) = Some e"
| "first_raised (None # cs) = first_raised cs"

definition createAcls_validate :: "protocol_enums \<Rightarrow> jsval \<Rightarrow> kerror option" where
  "createAcls_validate en acl =
     (if falsy acl \<or> \<not> isArray acl
      then Some (KafkaJSNonRetriableError [Lit ''Invalid ACL array '', Interp acl])
      else if length (elems acl) = 0
      then Some (KafkaJSNonRetriableError [Lit ''Empty ACL array''])
      else first_raised
        [check_strings ''principal''
           [Lit ''Invalid ACL array, the principals have to be a valid string''] (elems acl),
         check_strings ''host''
           [Lit ''Invalid ACL array, the hosts have to be a valid string''] (elems acl),
         check_strings ''resourceName''
           [Lit ''Invalid ACL array, the resourceNames have to be a valid string''] (elems acl),
         check_enum (validOperationTypes en) ''operation''
           ''Invalid operation type '' (elems acl),
         check_enum (validResourcePatternTypes en) ''resourcePatternType''
           ''Invalid resource pattern type '' (elems acl),
         check_enum (validPermissionTypes en) ''permissionType''
           ''Invalid permission type '' (elems acl),
         check_enum (validResourceTypes en) ''resourceType''
           ''Invalid resource type '' (elems acl)])"




section \<open>deleteGroups\<close>

text \<open>
  The two statements before the retrier. \<^verbatim>\<open>invalidGroupId\<close> is the result of
  \<^verbatim>\<open>groupIds.some(...)\<close>, a boolean, and it is this boolean that the message
  interpolates.
\<close>

definition deleteGroups_validate :: "jsval \<Rightarrow> kerror option" where
  "deleteGroups_validate groupIds =
     (if falsy groupIds \<or> \<not> isArray groupIds
      then Some (KafkaJSNonRetriableError [Lit ''Invalid groupIds array '', Interp groupIds])
      else let invalidGroupId = list_ex (\<lambda>g. typeof g \<noteq> ''string'') (elems groupIds) in
        if invalidGroupId
        then Some (KafkaJSNonRetriableError
               [Lit ''Invalid groupId name: '', Json (JBool invalidGroupId)])
        else None)"

fun the_string :: "jsval \<Rightarrow> string" where
  "the_string (JStr s) = s"
| "the_string v = []"

text \<open>
  \<^verbatim>\<open>brokersPerGroups\<close> maps a node id to the group ids it coordinates. Its keys are
  integer keys, which \<^verbatim>\<open>Object.keys\<close> lists in ascending order, so the object is an
  association list kept in ascending order of the node id; \<^verbatim>\<open>brokersPerNode\<close> has the
  same keys and maps each to its broker handle, which is the node id here.
\<close>

fun push_group :: "nat \<Rightarrow> string \<Rightarrow> (nat \<times> string list) list \<Rightarrow> (nat \<times> string list) list" where
  "push_group n g [] = [(n, [g])]"
| "push_group n g ((m, gs) # rest) =
     (if n = m then (m, gs @ [g]) # rest
      else if n < m then (n, [g]) # (m, gs) # rest
      else (m, gs) # push_group n g rest)"

text \<open>The \<^verbatim>\<open>for (const groupId of clonedGroupIds)\<close> loop.\<close>

fun resolve_coordinators ::
  "cluster \<Rightarrow> string list \<Rightarrow> (nat \<times> string list) list \<Rightarrow> (nat \<times> string list) list io" where
  "resolve_coordinators cl [] acc = return_io acc"
| "resolve_coordinators cl (g # gs) acc =
     bind_io (request (FindGroupCoordinator g) (\<lambda>h. findGroupCoordinator cl h g))
       (\<lambda>broker. resolve_coordinators cl gs (push_group broker g acc))"

text \<open>
  \<^verbatim>\<open>Promise.all(keys.map(async ...))\<close>: every call is issued, in the order of the keys;
  the result is the list of the answers, or a rejection when a call was rejected. The
  calls are taken to be answered in the order they were issued, so the rejection is the
  first one in that order.
\<close>

fun issue_all :: "'a io list \<Rightarrow> call list \<Rightarrow> (kerror + 'a) list \<times> call list" where
  "issue_all [] tr = ([], tr)"
| "issue_all (m # ms) tr =
     (case m tr of (r, tr') \<Rightarrow>
        (case issue_all ms tr' of (rs, tr'') \<Rightarrow> (r # rs, tr'')))"

fun first_rejection :: "(kerror + 'a) list \<Rightarrow> kerror + 'a list" where
  "first_rejection [] = Inr []"
| "first_rejection (Inl e # rs) = Inl e"
| "first_rejection (Inr v # rs) =
     (case first_rejection rs of Inl e \<Rightarrow> Inl e | Inr vs \<Rightarrow> Inr (v # vs))"

definition promise_all :: "'a io list \<Rightarrow> 'a list io" where
  "promise_all ms tr = (case issue_all ms tr of (rs, tr') \<Rightarrow> (first_rejection rs, tr'))"

text \<open>
  The \<^verbatim>\<open>try\<close> block up to \<^verbatim>\<open>const res = await Promise.all(...)\<close>; \<open>res\<close> is the list
  of the \<^verbatim>\<open>results\<close> arrays of the responses.
\<close>

definition deleteGroups_fanout :: "cluster \<Rightarrow> string list \<Rightarrow> group_result list list io" where
  "deleteGroups_fanout cl clonedGroupIds =
     bind_io (request RefreshMetadata (refreshMetadata cl)) (\<lambda>_.
     bind_io (resolve_coordinators cl clonedGroupIds []) (\<lambda>brokersPerGroups.
     promise_all
       (map (\<lambda>(nodeId, gs).
               request (BrokerDeleteGroups nodeId gs) (\<lambda>h. broker_deleteGroups cl h nodeId gs))
          brokersPerGroups)))"

definition failed_results :: "group_result list list \<Rightarrow> group_result list" where
  "failed_results res = filter (\<lambda>r. errorCode r \<noteq> 0) (concat res)"

text \<open>
  One run of the function given to the retrier. Its state is the trace and the variable
  \<^verbatim>\<open>clonedGroupIds\<close>, which the closure shares between the attempts. \<open>dgType\<close> is
  the \<^verbatim>\<open>type\<close> of a \<^verbatim>\<open>KafkaJSDeleteGroupsError\<close>. The variable \<^verbatim>\<open>results\<close> is
  assigned just before it is returned and read nowhere else.
\<close>

definition deleteGroups_catch :: "kerror \<Rightarrow> 'a outcome" where
  "deleteGroups_catch e = rethrow_or_bail [''NOT_CONTROLLER'', ''COORDINATOR_NOT_AVAILABLE''] e"

definition deleteGroups_attempt ::
  "string option \<Rightarrow> cluster \<Rightarrow> call list \<times> string list
     \<Rightarrow> group_result list outcome \<times> (call list \<times> string list)" where
  "deleteGroups_attempt dgType cl s =
     (case s of (tr, clonedGroupIds) \<Rightarrow>
        if length clonedGroupIds = 0 then (Return [], (tr, clonedGroupIds))
        else
          (case deleteGroups_fanout cl clonedGroupIds tr of
             (Inl e, tr') \<Rightarrow> (deleteGroups_catch e, (tr', clonedGroupIds))
           | (Inr res, tr') \<Rightarrow>
               let errors = failed_results res in
               if length errors > 0
               then (deleteGroups_catch
                       (KafkaJSDeleteGroupsError dgType [Lit ''Error in DeleteGroups''] errors),
                     (tr', map groupId errors))
               else (Return (concat res), (tr', map groupId errors))))"

definition deleteGroups ::
  "string option \<Rightarrow> nat \<Rightarrow> cluster \<Rightarrow> jsval \<Rightarrow> call list
     \<Rightarrow> (kerror + group_result list) \<times> call list" where
  "deleteGroups dgType retries cl groupIds tr =
     (case deleteGroups_validate groupIds of
        Some e \<Rightarrow> (Inl e, tr)
      | None \<Rightarrow>
          (case retrier retries (deleteGroups_attempt dgType cl)
                  (tr, map the_string (elems groupIds)) of
             (r, (tr', ids)) \<Rightarrow> (r, tr')))"

section \<open>createTopics\<close>

text \<open>
  Modelled from the spec: \<^verbatim>\<open>waitFor\<close> of \<^verbatim>\<open>src/utils/waitFor\<close> is not among the
  sources. Section 4.3: a separate loop with a fixed delay and a timeout of its own, in
  which a callback that returns \<^verbatim>\<open>false\<close> means "not yet" and the loop continues,
  and which times out with its message when the condition never holds. The timeout is
  counted in polls: \<open>waitFor polls fn msg\<close> calls \<open>fn\<close> at most \<open>polls\<close> times, resolves
  with the first truthy value, rejects with what \<open>fn\<close> throws, and rejects with the
  timeout message when the polls are used up.
\<close>

fun waitFor :: "nat \<Rightarrow> jsval io \<Rightarrow> message \<Rightarrow> jsval io" where
  "waitFor 0 fn timeoutMessage tr = (Inl (KafkaJSTimeout timeoutMessage), tr)"
| "waitFor (Suc n) fn timeoutMessage tr =
     (case fn tr of
        (Inl e, tr') \<Rightarrow> (Inl e, tr')
      | (Inr v, tr') \<Rightarrow> if truthy v then (Inr v, tr') else waitFor n fn timeoutMessage tr')"

text \<open>The \<^verbatim>\<open>callback\<close> of \<^verbatim>\<open>retryOnLeaderNotAvailable\<close>, and the function itself.\<close>

definition leader_callback :: "jsval io \<Rightarrow> jsval io" where
  "leader_callback fn tr =
     (case fn tr of
        (Inr v, tr') \<Rightarrow> (Inr v, tr')
      | (Inl e, tr') \<Rightarrow>
          if etype e \<noteq> Some ''LEADER_NOT_AVAILABLE'' then (Inl e, tr')
          else (Inr (JBool False), tr'))"

definition retryOnLeaderNotAvailable :: "nat \<Rightarrow> jsval io \<Rightarrow> message \<Rightarrow> jsval io" where
  "retryOnLeaderNotAvailable polls fn timeoutMessage =
     waitFor polls (leader_callback fn) timeoutMessage"

text \<open>
  \<^verbatim>\<open>xs.filter(p)\<close> with a callback that may throw: every element is visited.
\<close>

fun js_filter :: "(jsval \<Rightarrow> kerror + bool) \<Rightarrow> jsval list \<Rightarrow> kerror + jsval list" where
  "js_filter p [] = Inr []"
| "js_filter p (x # xs) =
     (case p x of
        Inl e \<Rightarrow> Inl e
      | Inr b \<Rightarrow>
          (case js_filter p xs of
             Inl e \<Rightarrow> Inl e
           | Inr ys \<Rightarrow> Inr (if b then x # ys else ys)))"

text \<open>
  The values of \<^verbatim>\<open>new Set(xs)\<close> in insertion order: the first occurrence of each.
\<close>

definition set_values :: "jsval list \<Rightarrow> jsval list" where
  "set_values xs = rev (remdups (rev xs))"

definition topic_names :: "jsval \<Rightarrow> jsval list" where
  "topic_names topics = set_values (map (\<lambda>t. field_of t ''topic'') (elems topics))"

definition createTopics_validate :: "jsval \<Rightarrow> kerror option" where
  "createTopics_validate topics =
     (if falsy topics \<or> \<not> isArray topics
      then Some (KafkaJSNonRetriableError [Lit ''Invalid topics array '', Interp topics])
      else
        (case js_filter (\<lambda>t. case get_prop t ''topic'' of
                               Inl e \<Rightarrow> Inl e
                             | Inr topic \<Rightarrow> Inr (typeof topic \<noteq> ''string'')) (elems topics) of
           Inl e \<Rightarrow> Some e
         | Inr bad \<Rightarrow>
             if length bad > 0
             then Some (KafkaJSNonRetriableError
                    [Lit ''Invalid topics array, the topic names have to be a valid string''])
             else if length (topic_names topics) < length (elems topics)
             then Some (KafkaJSNonRetriableError
                    [Lit ''Invalid topics array, it cannot have multiple entries for the same topic''])
             else None))"

definition leaders_timeout_message :: message where
  "leaders_timeout_message = [Lit ''Timed out while waiting for topic leaders'']"

text \<open>
  The \<^verbatim>\<open>try\<close> block. \<open>polls\<close> is how many polls, 100 ms apart, fit into the timeout
  of \<^verbatim>\<open>waitFor\<close>. \<open>waitForLeaders\<close> is the argument after its default \<^verbatim>\<open>true\<close> was
  applied.
\<close>

definition wait_for_leaders :: "nat \<Rightarrow> cluster \<Rightarrow> nat \<Rightarrow> jsval \<Rightarrow> jsval io" where
  "wait_for_leaders polls cl broker topics =
     retryOnLeaderNotAvailable polls
       (request (BrokerMetadata broker (topic_names topics))
          (\<lambda>h. broker_metadata cl h broker (topic_names topics)))
       leaders_timeout_message"

definition createTopics_try ::
  "nat \<Rightarrow> cluster \<Rightarrow> jsval \<Rightarrow> jsval \<Rightarrow> jsval \<Rightarrow> bool \<Rightarrow> bool io" where
  "createTopics_try polls cl topics validateOnly timeout waitForLeaders =
     bind_io (request RefreshMetadata (refreshMetadata cl)) (\<lambda>_.
     bind_io (request FindControllerBroker (findControllerBroker cl)) (\<lambda>broker.
     bind_io (request (BrokerCreateTopics broker topics validateOnly timeout)
                (\<lambda>h. broker_createTopics cl h broker topics validateOnly timeout)) (\<lambda>_.
     bind_io (if waitForLeaders
              then wait_for_leaders polls cl broker topics
              else return_io JUndefined) (\<lambda>_.
     return_io True))))"

definition createTopics_catch :: "kerror \<Rightarrow> bool outcome" where
  "createTopics_catch e =
     (if etype e = Some ''NOT_CONTROLLER'' then Throw e
      else if etype e = Some ''TOPIC_ALREADY_EXISTS'' then Return False
      else Bail e)"

definition createTopics_attempt ::
  "nat \<Rightarrow> cluster \<Rightarrow> jsval \<Rightarrow> jsval \<Rightarrow> jsval \<Rightarrow> bool \<Rightarrow> call list \<Rightarrow> bool outcome \<times> call list" where
  "createTopics_attempt polls cl topics validateOnly timeout waitForLeaders tr =
     (case createTopics_try polls cl topics validateOnly timeout waitForLeaders tr of
        (Inr v, tr') \<Rightarrow> (Return v, tr')
      | (Inl e, tr') \<Rightarrow> (createTopics_catch e, tr'))"

definition createTopics ::
  "nat \<Rightarrow> nat \<Rightarrow> cluster \<Rightarrow> jsval \<Rightarrow> jsval \<Rightarrow> jsval \<Rightarrow> bool \<Rightarrow> call list
     \<Rightarrow> (kerror + bool) \<times> call list" where
  "createTopics retries polls cl topics validateOnly timeout waitForLeaders tr =
     (case createTopics_validate topics of
        Some e \<Rightarrow> (Inl e, tr)
      | None \<Rightarrow>
          retrier retries
            (createTopics_attempt polls cl topics validateOnly timeout waitForLeaders) tr)"

section \<open>fetchTopicOffsets\<close>

datatype topic_offset_entry =
  TopicOffsetEntry (e_partition: nat) (e_offset: int) (e_high: int) (e_low: int)

text \<open>
  \<^verbatim>\<open>xs.pop()\<close> followed by the destructuring of \<^verbatim>\<open>partitions\<close>: the last element,
  and a TypeError when the array is empty.
\<close>

definition pop_partitions :: "topic_offsets list \<Rightarrow> kerror + partition_offset list" where
  "pop_partitions xs = (if xs = [] then Inl TypeError else Inr (to_partitions (last xs)))"

text \<open>
  \<^verbatim>\<open>lowPartitions.find(({ partition: lowPartition }) => lowPartition === partition).offset\<close>:
  a TypeError when no entry has the partition.
\<close>

definition low_offset :: "partition_offset list \<Rightarrow> nat \<Rightarrow> kerror + int" where
  "low_offset lowPartitions p =
     (case List.find (\<lambda>l. po_partition l = p) lowPartitions of
        None \<Rightarrow> Inl TypeError
      | Some l \<Rightarrow> Inr (po_offset l))"

fun pair_offsets :: "partition_offset list \<Rightarrow> partition_offset list \<Rightarrow> kerror + topic_offset_entry list" where
  "pair_offsets [] lowPartitions = Inr []"
| "pair_offsets (h # hs) lowPartitions =
     (case low_offset lowPartitions (po_partition h) of
        Inl e \<Rightarrow> Inl e
      | Inr l \<Rightarrow>
          (case pair_offsets hs lowPartitions of
             Inl e \<Rightarrow> Inl e
           | Inr es \<Rightarrow>
               Inr (TopicOffsetEntry (po_partition h) (po_offset h) (po_offset h) l # es)))"

definition lift_io :: "kerror + 'a \<Rightarrow> 'a io" where
  "lift_io r tr = (r, tr)"

definition fetchTopicOffsets_try :: "cluster \<Rightarrow> jsval \<Rightarrow> topic_offset_entry list io" where
  "fetchTopicOffsets_try cl topic =
     bind_io (request (AddTargetTopic topic) (\<lambda>h. addTargetTopic cl h topic)) (\<lambda>_.
     bind_io (request RefreshMetadataIfNecessary (refreshMetadataIfNecessary cl)) (\<lambda>_.
     bind_io (\<lambda>h. lift_io (findTopicPartitionMetadata cl h topic) h) (\<lambda>metadata.
     bind_io (request (FetchTopicsOffset topic False (map partitionId metadata))
                (\<lambda>h. fetchTopicsOffset cl h topic False (map partitionId metadata))) (\<lambda>high.
     bind_io (request (FetchTopicsOffset topic True (map partitionId metadata))
                (\<lambda>h. fetchTopicsOffset cl h topic True (map partitionId metadata))) (\<lambda>low.
     bind_io (lift_io (pop_partitions high)) (\<lambda>highPartitions.
     bind_io (lift_io (pop_partitions low)) (\<lambda>lowPartitions.
     lift_io (pair_offsets highPartitions lowPartitions))))))))"

definition fetchTopicOffsets_attempt ::
  "cluster \<Rightarrow> jsval \<Rightarrow> call list \<Rightarrow> topic_offset_entry list outcome \<times> call list" where
  "fetchTopicOffsets_attempt cl topic tr =
     (case fetchTopicOffsets_try cl topic tr of
        (Inr v, tr') \<Rightarrow> (Return v, tr')
      | (Inl e, tr') \<Rightarrow>
          if etype e = Some ''UNKNOWN_TOPIC_OR_PARTITION''
          then (case request RefreshMetadata (refreshMetadata cl) tr' of
                  (Inl e2, tr'') \<Rightarrow> (Throw e2, tr'')
                | (Inr u, tr'') \<Rightarrow> (Throw e, tr''))
          else (Bail e, tr'))"

definition fetchTopicOffsets ::
  "nat \<Rightarrow> cluster \<Rightarrow> jsval \<Rightarrow> call list \<Rightarrow> (kerror + topic_offset_entry list) \<times> call list" where
  "fetchTopicOffsets retries cl topic tr =
     (if falsy topic \<or> typeof topic \<noteq> ''string''
      then (Inl (KafkaJSNonRetriableError [Lit ''Invalid topic '', Interp topic]), tr)
      else retrier retries (fetchTopicOffsets_attempt cl topic) tr)"

section \<open>setOffsets and resetOffsets\<close>

text \<open>
  A promise that is awaited by the caller: it resolves, rejects, or stays pending.
\<close>

datatype 'a settled = Resolved 'a | Rejected kerror | Pending

datatype seek_entry = SeekEntry (se_partition: nat) (se_offset: int)

text \<open>
  \<^verbatim>\<open>isConsumerGroupRunning\<close> as the source defines it: true for the states
  \<^verbatim>\<open>'Empty'\<close> and \<^verbatim>\<open>'Dead'\<close>.
\<close>

definition isConsumerGroupRunning :: "jsval \<Rightarrow> kerror + bool" where
  "isConsumerGroupRunning description =
     (case get_prop description ''state'' of
        Inl e \<Rightarrow> Inl e
      | Inr st \<Rightarrow> Inr (st \<in> set [JStr ''Empty'', JStr ''Dead'']))"

text \<open>The \<^verbatim>\<open>for (const seekData of partitions)\<close> loop.\<close>

fun seek_all :: "jsval \<Rightarrow> seek_entry list \<Rightarrow> call list \<Rightarrow> call list" where
  "seek_all topic [] tr = tr"
| "seek_all topic (seekData # rest) tr =
     seek_all topic rest (tr @ [ConsumerSeek topic (se_partition seekData) (se_offset seekData)])"

text \<open>
  The executor of \<^verbatim>\<open>new Promise(...)\<close>: it registers the FETCH listener, starts
  \<^verbatim>\<open>run\<close>, pauses the topic and seeks; the promise is settled by what the consumer
  does next.
\<close>

definition setOffsets_executor ::
  "consumer \<Rightarrow> jsval \<Rightarrow> seek_entry list \<Rightarrow> call list \<Rightarrow> unit settled \<times> call list" where
  "setOffsets_executor co topic partitions tr =
     (let tr1 = seek_all topic partitions (tr @ [ConsumerOnFetch, ConsumerRun, ConsumerPause topic])
      in case run_signal co tr1 of
           RunRejected e \<Rightarrow> (Rejected e, tr1)
         | NoSignal \<Rightarrow> (Pending, tr1)
         | FetchEvent \<Rightarrow>
             (case stop co tr1 of
                Inl e \<Rightarrow> (Rejected e, tr1 @ [ConsumerStop])
              | Inr u \<Rightarrow> (Resolved (), tr1 @ [ConsumerStop])))"

text \<open>
  The awaited calls before the promise: \<^verbatim>\<open>subscribe\<close>, \<^verbatim>\<open>describeGroup\<close> and the
  check of the state.
\<close>

definition setOffsets_check :: "consumer \<Rightarrow> jsval \<Rightarrow> unit io" where
  "setOffsets_check co topic =
     bind_io (request (ConsumerSubscribe topic) (subscribe co)) (\<lambda>_.
     bind_io (request ConsumerDescribeGroup (describeGroup co)) (\<lambda>description.
     bind_io (lift_io (isConsumerGroupRunning description)) (\<lambda>terminal.
     if \<not> terminal
     then throw_io (KafkaJSNonRetriableError
            [Lit ''The consumer group must have no running instances, current state: '',
             Interp (field_of description ''state'')])
     else return_io ())))"

text \<open>
  \<open>createConsumer\<close> gives the consumer bound to a group id; \<open>gid\<close> is the
  argument \<^verbatim>\<open>groupId\<close>. \<open>partitions\<close> is \<open>None\<close> for \<^verbatim>\<open>undefined\<close> and
  \<^verbatim>\<open>null\<close>.
\<close>

definition setOffsets ::
  "(jsval \<Rightarrow> consumer) \<Rightarrow> jsval \<Rightarrow> jsval \<Rightarrow> seek_entry list option \<Rightarrow> call list
     \<Rightarrow> unit settled \<times> call list" where
  "setOffsets createConsumer gid topic partitions tr =
     (if falsy gid
      then (Rejected (KafkaJSNonRetriableError [Lit ''Invalid groupId '', Interp gid]), tr)
      else if falsy topic
      then (Rejected (KafkaJSNonRetriableError [Lit ''Invalid topic '', Interp topic]), tr)
      else
        (case partitions of
           None \<Rightarrow> (Rejected (KafkaJSNonRetriableError [Lit ''Invalid partitions'']), tr)
         | Some ps \<Rightarrow>
             if length ps = 0
             then (Rejected (KafkaJSNonRetriableError [Lit ''Invalid partitions'']), tr)
             else
               (case setOffsets_check (createConsumer gid) topic tr of
                  (Inl e, tr') \<Rightarrow> (Rejected e, tr')
                | (Inr u, tr') \<Rightarrow> setOffsets_executor (createConsumer gid) topic ps tr')))"

text \<open>
  \<^verbatim>\<open>xs.sort()\<close> without a comparator orders numbers by their decimal strings. The
  digits of a number, most significant first, compared as strings are compared.
\<close>

fun decimal :: "nat \<Rightarrow> nat list" where
  "decimal n = (if n < 10 then [n] else decimal (n div 10) @ [n mod 10])"

fun string_le :: "nat list \<Rightarrow> nat list \<Rightarrow> bool" where
  "string_le [] ys = True"
| "string_le (x # xs) [] = False"
| "string_le (x # xs) (y # ys) = (x < y \<or> (x = y \<and> string_le xs ys))"

fun insert_sorted :: "nat \<Rightarrow> nat list \<Rightarrow> nat list" where
  "insert_sorted p [] = [p]"
| "insert_sorted p (q # qs) =
     (if string_le (decimal p) (decimal q) then p # q # qs else q # insert_sorted p qs)"

definition js_sort :: "nat list \<Rightarrow> nat list" where
  "js_sort ps = foldr insert_sorted ps []"

definition findTopicPartitions :: "cluster \<Rightarrow> jsval \<Rightarrow> nat list io" where
  "findTopicPartitions cl topic =
     bind_io (request (AddTargetTopic topic) (\<lambda>h. addTargetTopic cl h topic)) (\<lambda>_.
     bind_io (request RefreshMetadataIfNecessary (refreshMetadataIfNecessary cl)) (\<lambda>_.
     bind_io (\<lambda>h. lift_io (findTopicPartitionMetadata cl h topic) h) (\<lambda>metadata.
     return_io (js_sort (map partitionId metadata)))))"

text \<open>\<open>earliest\<close> is the argument after its default \<^verbatim>\<open>false\<close> was applied.\<close>

definition resetOffsets ::
  "(jsval \<Rightarrow> consumer) \<Rightarrow> cluster \<Rightarrow> jsval \<Rightarrow> jsval \<Rightarrow> bool \<Rightarrow> call list
     \<Rightarrow> unit settled \<times> call list" where
  "resetOffsets createConsumer cl gid topic earliest tr =
     (if falsy gid
      then (Rejected (KafkaJSNonRetriableError [Lit ''Invalid groupId '', Interp gid]), tr)
      else if falsy topic
      then (Rejected (KafkaJSNonRetriableError [Lit ''Invalid topic '', Interp topic]), tr)
      else
        (case findTopicPartitions cl topic tr of
           (Inl e, tr') \<Rightarrow> (Rejected e, tr')
         | (Inr partitions, tr') \<Rightarrow>
             setOffsets createConsumer gid topic
               (Some (map (\<lambda>p. SeekEntry p (defaultOffset cl earliest)) partitions)) tr'))"

section \<open>describeCluster\<close>

definition NO_CONTROLLER_ID :: int where
  "NO_CONTROLLER_ID = - 1"

record cluster_description =
  brokers :: "jsval list"
  controller :: jsval
  clusterId :: jsval

text \<open>\<^verbatim>\<open>xs.map(f)\<close> with a callback that may throw.\<close>

fun js_map :: "(jsval \<Rightarrow> kerror + jsval) \<Rightarrow> jsval list \<Rightarrow> kerror + jsval list" where
  "js_map f [] = Inr []"
| "js_map f (x # xs) =
     (case f x of
        Inl e \<Rightarrow> Inl e
      | Inr y \<Rightarrow> (case js_map f xs of Inl e \<Rightarrow> Inl e | Inr ys \<Rightarrow> Inr (y # ys)))"

text \<open>\<^verbatim>\<open>({ nodeId, host, port }) => ({ nodeId, host, port })\<close>.\<close>

definition describe_broker :: "jsval \<Rightarrow> kerror + jsval" where
  "describe_broker node =
     (case get_prop node ''nodeId'' of
        Inl e \<Rightarrow> Inl e
      | Inr nodeId \<Rightarrow>
          Inr (JObj [(''nodeId'', nodeId),
                     (''host'', field_of node ''host''),
                     (''port'', field_of node ''port'')]))"

text \<open>\<^verbatim>\<open>v == null\<close> holds for \<^verbatim>\<open>null\<close> and \<^verbatim>\<open>undefined\<close> only.\<close>

fun loosely_null :: "jsval \<Rightarrow> bool" where
  "loosely_null JNull = True"
| "loosely_null JUndefined = True"
| "loosely_null v = False"

definition describeCluster :: "cluster \<Rightarrow> cluster_description io" where
  "describeCluster cl =
     bind_io (request ClusterMetadata (metadata cl)) (\<lambda>md.
     bind_io (lift_io (js_map describe_broker (md_brokers md))) (\<lambda>brokers.
     return_io
       \<lparr>brokers = brokers,
        controller =
          (if loosely_null (md_controllerId md) \<or> md_controllerId md = JNum NO_CONTROLLER_ID
           then JNull else md_controllerId md),
        clusterId = md_clusterId md\<rparr>))"

section \<open>The precedence of the ACL rules, as the specification words it\<close>

text \<open>
  The specification names the rules of ACL creation and their order: array shape,
  principal type, host type, resourceName type, operation enum, resourcePatternType
  enum, permissionType enum, resourceType enum. \<open>violates\<close> says when a batch breaks
  a rule, \<open>rule_error\<close> is the error that belongs to a rule. These definitions follow
  the specification and are compared with \<open>createAcls\<close> below.
\<close>

datatype acl_rule =
    ArrayShape | PrincipalType | HostType | ResourceNameType
  | OperationEnum | ResourcePatternTypeEnum | PermissionTypeEnum | ResourceTypeEnum

definition acl_precedence :: "acl_rule list" where
  "acl_precedence =
     [ArrayShape, PrincipalType, HostType, ResourceNameType,
      OperationEnum, ResourcePatternTypeEnum, PermissionTypeEnum, ResourceTypeEnum]"

definition not_string_in :: "string \<Rightarrow> jsval \<Rightarrow> bool" where
  "not_string_in f e = (typeof (field_of e f) \<noteq> ''string'')"

definition not_member_in :: "jsval list \<Rightarrow> string \<Rightarrow> jsval \<Rightarrow> bool" where
  "not_member_in valid f e = (field_of e f \<notin> set valid)"

fun violates :: "protocol_enums \<Rightarrow> jsval \<Rightarrow> acl_rule \<Rightarrow> bool" where
  "violates en acl ArrayShape = (falsy acl \<or> \<not> isArray acl \<or> elems acl = [])"
| "violates en acl PrincipalType = list_ex (not_string_in ''principal'') (elems acl)"
| "violates en acl HostType = list_ex (not_string_in ''host'') (elems acl)"
| "violates en acl ResourceNameType = list_ex (not_string_in ''resourceName'') (elems acl)"
| "violates en acl OperationEnum =
     list_ex (not_member_in (validOperationTypes en) ''operation'') (elems acl)"
| "violates en acl ResourcePatternTypeEnum =
     list_ex (not_member_in (validResourcePatternTypes en) ''resourcePatternType'') (elems acl)"
| "violates en acl PermissionTypeEnum =
     list_ex (not_member_in (validPermissionTypes en) ''permissionType'') (elems acl)"
| "violates en acl ResourceTypeEnum =
     list_ex (not_member_in (validResourceTypes en) ''resourceType'') (elems acl)"

text \<open>
  The error of an enum rule names the value of the field in the first entry that
  breaks the rule, and that entry.
\<close>

definition enum_error :: "jsval list \<Rightarrow> string \<Rightarrow> string \<Rightarrow> jsval list \<Rightarrow> kerror" where
  "enum_error valid f label xs =
     (case List.find (not_member_in valid f) xs of
        Some i \<Rightarrow> KafkaJSNonRetriableError [Lit label, Interp (field_of i f), Lit '': '', Json i]
      | None \<Rightarrow> KafkaJSNonRetriableError [])"


text \<open>An entry of a batch that is neither \<^verbatim>\<open>null\<close> nor \<^verbatim>\<open>undefined\<close>.\<close>

definition not_nullish :: "jsval \<Rightarrow> bool" where
  "not_nullish e = (e \<noteq> JUndefined \<and> e \<noteq> JNull)"

section \<open>Example collaborators\<close>


definition quiet_cluster :: cluster where
  "quiet_cluster =
     \<lparr>refreshMetadata = (\<lambda>h. Inr ()),
      refreshMetadataIfNecessary = (\<lambda>h. Inr ()),
      addTargetTopic = (\<lambda>h t. Inr ()),
      metadata = (\<lambda>h. Inr \<lparr>md_brokers = [], md_clusterId = JStr ''c'', md_controllerId = JNum 1\<rparr>),
      findTopicPartitionMetadata = (\<lambda>h t. Inr []),
      defaultOffset = (\<lambda>b. if b then - 2 else - 1),
      fetchTopicsOffset = (\<lambda>h t b ps. Inr []),
      findControllerBroker = (\<lambda>h. Inr 1),
      findGroupCoordinator = (\<lambda>h g. Inr 1),
      broker_createAcls = (\<lambda>h n a. Inr ()),
      broker_createTopics = (\<lambda>h n t v w. Inr ()),
      broker_metadata = (\<lambda>h n ts. Inr (JObj [])),
      broker_deleteGroups = (\<lambda>h n gs. Inr (map (\<lambda>g. GroupResult g 0 JNull) gs))\<rparr>"


section \<open>Definitions used to state the properties\<close>

text \<open>What \<open>describeCluster\<close> keeps of a broker of the metadata.\<close>

definition project_broker :: "jsval \<Rightarrow> jsval" where
  "project_broker node =
     JObj [(''nodeId'', field_of node ''nodeId''),
           (''host'', field_of node ''host''),
           (''port'', field_of node ''port'')]"

text \<open>A cluster of two brokers that also report a rack, with no controller known.\<close>

definition rack_metadata :: cluster_metadata where
  "rack_metadata =
     \<lparr>md_brokers =
        [JObj [(''nodeId'', JNum 0), (''host'', JStr ''kafka-0''), (''port'', JNum 9092),
               (''rack'', JStr ''a'')],
         JObj [(''nodeId'', JNum 1), (''host'', JStr ''kafka-1''), (''port'', JNum 9092),
               (''rack'', JStr ''b'')]],
      md_clusterId = JStr ''cluster-1'',
      md_controllerId = JNum (- 1)\<rparr>"

definition rack_cluster :: cluster where
  "rack_cluster = quiet_cluster\<lparr>metadata := (\<lambda>h. Inr rack_metadata)\<rparr>"

text \<open>The states in which a group has no running member.\<close>

definition terminal_state :: "jsval \<Rightarrow> bool" where
  "terminal_state st = (st = JStr ''Empty'' \<or> st = JStr ''Dead'')"

text \<open>
  A consumer whose group is in the given state; it emits its FETCH event once
  \<^verbatim>\<open>run\<close> was called, and \<^verbatim>\<open>stop\<close> succeeds. A cluster whose topics have the
  partitions 0 and 1.
\<close>

definition consumer_in_state :: "string \<Rightarrow> consumer" where
  "consumer_in_state st =
     \<lparr>subscribe = (\<lambda>h. Inr ()),
      describeGroup = (\<lambda>h. Inr (JObj [(''state'', JStr st)])),
      run_signal = (\<lambda>h. FetchEvent),
      stop = (\<lambda>h. Inr ())\<rparr>"

definition two_partition_cluster :: cluster where
  "two_partition_cluster =
     quiet_cluster
       \<lparr>findTopicPartitionMetadata :=
          (\<lambda>h t. Inr [PartitionMetadata 0 1, PartitionMetadata 1 1])\<rparr>"

text \<open>
  A cluster whose topics have the partitions 0 and 1, with the high watermarks 10 and
  20 and the low watermarks 0 and 5; the from-beginning answer lists partition 1 first.
\<close>

definition offsets_cluster :: cluster where
  "offsets_cluster =
     quiet_cluster
       \<lparr>findTopicPartitionMetadata :=
          (\<lambda>h t. Inr [PartitionMetadata 0 1, PartitionMetadata 1 1]),
        fetchTopicsOffset :=
          (\<lambda>h t fromBeginning ps.
             Inr [TopicOffsets t
                    (if fromBeginning
                     then [PartitionOffset 1 5, PartitionOffset 0 0]
                     else [PartitionOffset 0 10, PartitionOffset 1 20])])\<rparr>"

text \<open>
  Clusters for topic creation: one whose broker accepts a create call once and answers
  TOPIC_ALREADY_EXISTS after that; one whose broker never finds a leader; one whose
  metadata refresh always answers NOT_CONTROLLER; one whose broker metadata query fails
  with another error.
\<close>

fun is_create :: "call \<Rightarrow> bool" where
  "is_create (BrokerCreateTopics n t v w) = True"
| "is_create c = False"

definition once_cluster :: cluster where
  "once_cluster =
     quiet_cluster
       \<lparr>broker_createTopics :=
          (\<lambda>h n t v w.
             if list_ex is_create h
             then Inl (KafkaJSProtocolError ''TOPIC_ALREADY_EXISTS'')
             else Inr ())\<rparr>"

definition orders_topics :: jsval where
  "orders_topics = JArr [JObj [(''topic'', JStr ''orders''), (''numPartitions'', JNum 1)]]"

definition leaderless_cluster :: cluster where
  "leaderless_cluster =
     quiet_cluster
       \<lparr>broker_metadata := (\<lambda>h n ts. Inl (KafkaJSProtocolError ''LEADER_NOT_AVAILABLE''))\<rparr>"

definition moved_cluster :: cluster where
  "moved_cluster =
     quiet_cluster
       \<lparr>refreshMetadata := (\<lambda>h. Inl (KafkaJSProtocolError ''NOT_CONTROLLER''))\<rparr>"

definition unknown_cluster :: cluster where
  "unknown_cluster =
     quiet_cluster
       \<lparr>broker_metadata := (\<lambda>h n ts. Inl (KafkaJSProtocolError ''UNKNOWN_TOPIC_OR_PARTITION''))\<rparr>"

text \<open>
  The group ids a call is about, and the group ids that a stretch of the trace targets.
\<close>

fun call_groups :: "call \<Rightarrow> string list" where
  "call_groups (FindGroupCoordinator g) = [g]"
| "call_groups (BrokerDeleteGroups n gs) = gs"
| "call_groups c = []"

definition targeted :: "call list \<Rightarrow> string list" where
  "targeted tr = concat (map call_groups tr)"



definition delete_call :: "nat \<times> string list \<Rightarrow> call" where
  "delete_call p = BrokerDeleteGroups (fst p) (snd p)"

text \<open>The error types that the \<^verbatim>\<open>catch\<close> block of \<open>deleteGroups\<close> rethrows.\<close>

definition retriable_type :: "string option \<Rightarrow> bool" where
  "retriable_type t = (t = Some ''NOT_CONTROLLER'' \<or> t = Some ''COORDINATOR_NOT_AVAILABLE'')"

text \<open>A broker whose answer lists every group of the request exactly once.\<close>

definition answers_each_once :: "cluster \<Rightarrow> bool" where
  "answers_each_once cl =
     (\<forall>h n gs r. broker_deleteGroups cl h n gs = Inr r \<longrightarrow> mset (map groupId r) = mset gs)"



definition split_cluster :: cluster where
  "split_cluster =
     quiet_cluster
       \<lparr>findGroupCoordinator := (\<lambda>h g. if g = ''g2'' then Inr 2 else Inr 1),
        broker_deleteGroups :=
          (\<lambda>h n gs.
             if n = 2 \<and> length (filter (\<lambda>c. c = RefreshMetadata) h) < 2
             then Inl (KafkaJSProtocolError ''COORDINATOR_NOT_AVAILABLE'')
             else Inr (map (\<lambda>g. GroupResult g 0 JNull) gs))\<rparr>"

text \<open>
  The offset that an answer of the cluster reports for a partition: that of the first
  entry of the answer with this partition id.
\<close>

definition reported_offset :: "partition_offset list \<Rightarrow> nat \<Rightarrow> int option" where
  "reported_offset answer p =
     map_option po_offset (List.find (\<lambda>x. po_partition x = p) answer)"

text \<open>
  The state in which the retried function is entered after \<open>k\<close> attempts in a row
  that each ended in a rethrown error; \<open>None\<close> when one of them returned or bailed.
\<close>

fun after_throws :: "nat \<Rightarrow> ('s \<Rightarrow> 'a outcome \<times> 's) \<Rightarrow> 's \<Rightarrow> 's option" where
  "after_throws 0 fn s = Some s"
| "after_throws (Suc k) fn s =
     (case fn s of
        (Throw e, s') \<Rightarrow> after_throws k fn s'
      | (Return v, s') \<Rightarrow> None
      | (Bail e, s') \<Rightarrow> None)"

text \<open>
  More clusters for topic creation, both with a broker that accepts a topic once: one
  whose first metadata refresh answers NOT_CONTROLLER, and one whose broker metadata
  query answers NOT_CONTROLLER until the metadata has been refreshed twice.
\<close>

definition settling_cluster :: cluster where
  "settling_cluster =
     once_cluster
       \<lparr>refreshMetadata :=
          (\<lambda>h. if h = [] then Inl (KafkaJSProtocolError ''NOT_CONTROLLER'') else Inr ())\<rparr>"

definition moving_cluster :: cluster where
  "moving_cluster =
     once_cluster
       \<lparr>broker_metadata :=
          (\<lambda>h n ts. if length (filter (\<lambda>c. c = RefreshMetadata) h) < 2
                    then Inl (KafkaJSProtocolError ''NOT_CONTROLLER'')
                    else Inr (JObj []))\<rparr>"

section \<open>Properties of createAcls\<close>

lemma get_prop_not_nullish: "not_nullish e \<Longrightarrow> get_prop e f = Inr (field_of e f)"
  by (cases e) (simp_all add: not_nullish_def field_of_def)

lemma some_not_string_eq:
  "list_all not_nullish xs \<Longrightarrow> some_not_string f xs = Inr (list_ex (not_string_in f) xs)"
  unfolding some_not_string_def
  by (induction xs) (simp_all add: get_prop_not_nullish not_string_in_def)

lemma check_strings_eq:
  "list_all not_nullish xs \<Longrightarrow>
   check_strings f msg xs =
     (if list_ex (not_string_in f) xs then Some (KafkaJSNonRetriableError msg) else None)"
  by (simp add: check_strings_def some_not_string_eq)

lemma find_invalid_eq:
  "list_all not_nullish xs \<Longrightarrow>
   find_invalid valid f xs =
     Inr (case List.find (not_member_in valid f) xs of Some i \<Rightarrow> i | None \<Rightarrow> JUndefined)"
  unfolding find_invalid_def
  by (induction xs) (simp_all add: get_prop_not_nullish not_member_in_def)

text \<open>
  An entry whose principal is a string is an object, hence truthy: once the principal
  check has passed, \<^verbatim>\<open>if (invalidType)\<close> cannot miss an entry that \<^verbatim>\<open>find\<close> returned.
\<close>

lemma string_field_truthy: "\<not> not_string_in f e \<Longrightarrow> truthy e"
  by (cases e) (simp_all add: not_string_in_def field_of_def)

lemma find_truthy:
  assumes "\<not> list_ex (not_string_in g) xs" and "List.find P xs = Some i"
  shows "truthy i"
proof -
  from assms(2) have "i \<in> set xs" by (auto simp: find_Some_iff)
  with assms(1) have "\<not> not_string_in g i" by (auto simp: list_ex_iff)
  then show ?thesis by (rule string_field_truthy)
qed

lemma check_enum_eq:
  assumes "list_all not_nullish xs" and "\<not> list_ex (not_string_in g) xs"
  shows "check_enum valid f label xs =
     (if list_ex (not_member_in valid f) xs then Some (enum_error valid f label xs) else None)"
proof (cases "List.find (not_member_in valid f) xs")
  case None
  then have "\<not> list_ex (not_member_in valid f) xs"
    by (auto simp: find_None_iff list_ex_iff)
  with None assms(1) show ?thesis
    by (simp add: check_enum_def find_invalid_eq)
next
  case (Some i)
  then have "list_ex (not_member_in valid f) xs"
    by (auto simp: find_Some_iff list_ex_iff)
  moreover from assms(2) Some have "truthy i" by (rule find_truthy)
  ultimately show ?thesis using Some assms(1)
    by (simp add: check_enum_def find_invalid_eq enum_error_def)
qed


lemma createAcls_validate_wellformed:
  assumes nn: "list_all not_nullish (elems acl)"
    and none: "List.find (violates en acl) acl_precedence = None"
  shows "createAcls_validate en acl = None"
proof -
  from none have "list_all (\<lambda>r. \<not> violates en acl r) acl_precedence"
    by (simp add: find_None_iff list_all_iff)
  then have v: "\<not> violates en acl ArrayShape" "\<not> violates en acl PrincipalType"
    "\<not> violates en acl HostType"
    "\<not> violates en acl ResourceNameType" "\<not> violates en acl OperationEnum"
    "\<not> violates en acl ResourcePatternTypeEnum" "\<not> violates en acl PermissionTypeEnum"
    "\<not> violates en acl ResourceTypeEnum"
    by (simp_all add: acl_precedence_def)
  then have p: "\<not> list_ex (not_string_in ''principal'') (elems acl)"
    by simp
  note ce = check_enum_eq [OF nn p]
  from v nn show ?thesis
    by (simp add: createAcls_validate_def check_strings_eq ce)
qed



section \<open>Properties of the validation of deleteGroups\<close>

lemma retrier_first_return:
  "fn s = (Return v, s') \<Longrightarrow> retrier n fn s = (Inr v, s')"
  by (cases n) simp_all

lemma deleteGroups_validate_not_array:
  "falsy g \<or> \<not> isArray g \<Longrightarrow>
   deleteGroups_validate g =
     Some (KafkaJSNonRetriableError [Lit ''Invalid groupIds array '', Interp g])"
  by (auto simp: deleteGroups_validate_def)

lemma deleteGroups_validate_not_string:
  "isArray g \<Longrightarrow> list_ex (\<lambda>x. typeof x \<noteq> ''string'') (elems g) \<Longrightarrow>
   deleteGroups_validate g =
     Some (KafkaJSNonRetriableError [Lit ''Invalid groupId name: '', Json (JBool True)])"
  by (cases g) (simp_all add: deleteGroups_validate_def)

lemma deleteGroups_empty:
  "deleteGroups dgType retries cl (JArr []) tr = (Inr [], tr)"
proof -
  have "deleteGroups_attempt dgType cl (tr, []) = (Return [], (tr, []))"
    by (simp add: deleteGroups_attempt_def)
  then have "retrier retries (deleteGroups_attempt dgType cl) (tr, []) = (Inr [], (tr, []))"
    by (rule retrier_first_return)
  then show ?thesis
    by (simp add: deleteGroups_def deleteGroups_validate_def)
qed

text \<open>
  C8, as the claim states it, fails for the empty array: \<open>deleteGroups\<close> raises no
  validation error there; it resolves to the empty list.
\<close>

theorem deleteGroups_empty_array_resolves:
  "deleteGroups None 3 quiet_cluster (JArr []) [] = (Inr [], [])"
  by (rule deleteGroups_empty)

text \<open>
  C8, amended. An argument that is falsy or not an array, and an array with an element
  that is not a string, make \<open>deleteGroups\<close> raise a validation error with an unchanged
  trace: no metadata refresh and no broker call. The empty array raises no error: it
  resolves to the empty result list, also with an unchanged trace.
\<close>

theorem deleteGroups_validation:
  "(falsy g1 \<or> \<not> isArray g1 \<longrightarrow>
      deleteGroups dgType retries cl g1 tr =
        (Inl (KafkaJSNonRetriableError [Lit ''Invalid groupIds array '', Interp g1]), tr))
   \<and> (isArray g2 \<and> list_ex (\<lambda>x. typeof x \<noteq> ''string'') (elems g2) \<longrightarrow>
      deleteGroups dgType retries cl g2 tr =
        (Inl (KafkaJSNonRetriableError [Lit ''Invalid groupId name: '', Json (JBool True)]), tr))
   \<and> deleteGroups dgType retries cl (JArr []) tr = (Inr [], tr)"
proof (intro conjI impI)
  assume "falsy g1 \<or> \<not> isArray g1"
  then show "deleteGroups dgType retries cl g1 tr =
      (Inl (KafkaJSNonRetriableError [Lit ''Invalid groupIds array '', Interp g1]), tr)"
    by (simp add: deleteGroups_def deleteGroups_validate_not_array)
next
  assume "isArray g2 \<and> list_ex (\<lambda>x. typeof x \<noteq> ''string'') (elems g2)"
  then show "deleteGroups dgType retries cl g2 tr =
      (Inl (KafkaJSNonRetriableError [Lit ''Invalid groupId name: '', Json (JBool True)]), tr)"
    by (simp add: deleteGroups_def deleteGroups_validate_not_string)
next
  show "deleteGroups dgType retries cl (JArr []) tr = (Inr [], tr)"
    by (rule deleteGroups_empty)
qed

theorem deleteGroups_validation_witness:
  "(falsy (JStr ''group-1'') \<or> \<not> isArray (JStr ''group-1''))
   \<and> deleteGroups None 3 quiet_cluster (JStr ''group-1'') [] =
        (Inl (KafkaJSNonRetriableError
                [Lit ''Invalid groupIds array '', Interp (JStr ''group-1'')]), [])
   \<and> isArray (JArr [JStr ''group-1'', JNum 7])
   \<and> list_ex (\<lambda>x. typeof x \<noteq> ''string'') (elems (JArr [JStr ''group-1'', JNum 7]))
   \<and> deleteGroups None 3 quiet_cluster (JArr [JStr ''group-1'', JNum 7]) [] =
        (Inl (KafkaJSNonRetriableError [Lit ''Invalid groupId name: '', Json (JBool True)]), [])
   \<and> deleteGroups None 3 quiet_cluster (JArr []) [] = (Inr [], [])"
  using deleteGroups_validation
    [of "JStr ''group-1''" None 3 quiet_cluster "[]" "JArr [JStr ''group-1'', JNum 7]"]
  by simp

text \<open>
  C9. For the array \<^verbatim>\<open>[123]\<close> the message of the validation error interpolates
  \<^verbatim>\<open>JSON.stringify(true)\<close>, the result of \<^verbatim>\<open>some\<close>: it does not contain the offending
  group id 123.
\<close>

theorem deleteGroups_message_echoes_boolean:
  "deleteGroups dgType retries cl (JArr [JNum 123]) tr =
     (Inl (KafkaJSNonRetriableError [Lit ''Invalid groupId name: '', Json (JBool True)]), tr)"
  by (simp add: deleteGroups_def deleteGroups_validate_not_string)

section \<open>Properties of describeCluster\<close>

lemma js_map_describe_broker:
  "list_all not_nullish ns \<Longrightarrow> js_map describe_broker ns = Inr (map project_broker ns)"
  by (induction ns)
     (simp_all add: describe_broker_def project_broker_def get_prop_not_nullish)

lemma loosely_null_iff: "loosely_null v = (v = JNull \<or> v = JUndefined)"
  by (cases v) simp_all

text \<open>
  C10. When the metadata query answers and its brokers are objects, \<open>describeCluster\<close>
  returns \<open>controller = null\<close> exactly when the controller id of the metadata is
  \<^verbatim>\<open>null\<close>, \<^verbatim>\<open>undefined\<close> or -1, and the controller id otherwise; every broker of the
  result has exactly the fields nodeId, host and port, with the values of the metadata.
\<close>

theorem describeCluster_controller:
  assumes "metadata cl tr = Inr md" and "list_all not_nullish (md_brokers md)"
  shows "\<exists>d. describeCluster cl tr = (Inr d, tr @ [ClusterMetadata])
          \<and> (controller d = JNull) =
              (md_controllerId md = JNull \<or> md_controllerId md = JUndefined
               \<or> md_controllerId md = JNum (- 1))
          \<and> controller d =
              (if md_controllerId md = JNull \<or> md_controllerId md = JUndefined
                  \<or> md_controllerId md = JNum (- 1)
               then JNull else md_controllerId md)
          \<and> brokers d = map project_broker (md_brokers md)
          \<and> clusterId d = md_clusterId md"
  using assms
  by (auto simp: describeCluster_def bind_io_def request_def lift_io_def return_io_def
      js_map_describe_broker loosely_null_iff NO_CONTROLLER_ID_def)

theorem describeCluster_controller_witness:
  "describeCluster rack_cluster [] =
     (Inr \<lparr>brokers =
             [JObj [(''nodeId'', JNum 0), (''host'', JStr ''kafka-0''), (''port'', JNum 9092)],
              JObj [(''nodeId'', JNum 1), (''host'', JStr ''kafka-1''), (''port'', JNum 9092)]],
           controller = JNull,
           clusterId = JStr ''cluster-1''\<rparr>, [ClusterMetadata])"
proof -
  have h1: "metadata rack_cluster [] = Inr rack_metadata"
    by (simp add: rack_cluster_def quiet_cluster_def)
  have h2: "list_all not_nullish (md_brokers rack_metadata)"
    by (simp add: rack_metadata_def not_nullish_def)
  from describeCluster_controller [OF h1 h2]
  obtain d where d: "describeCluster rack_cluster [] = (Inr d, [] @ [ClusterMetadata])"
    and c: "(controller d = JNull) =
              (md_controllerId rack_metadata = JNull \<or> md_controllerId rack_metadata = JUndefined
               \<or> md_controllerId rack_metadata = JNum (- 1))"
    and b: "brokers d = map project_broker (md_brokers rack_metadata)"
    and i: "clusterId d = md_clusterId rack_metadata"
    by blast
  from c b i have "d = \<lparr>brokers =
             [JObj [(''nodeId'', JNum 0), (''host'', JStr ''kafka-0''), (''port'', JNum 9092)],
              JObj [(''nodeId'', JNum 1), (''host'', JStr ''kafka-1''), (''port'', JNum 9092)]],
           controller = JNull,
           clusterId = JStr ''cluster-1''\<rparr>"
    by (cases d) (simp add: rack_metadata_def project_broker_def field_of_def)
  with d show ?thesis by simp
qed

section \<open>Properties of setOffsets and resetOffsets\<close>

lemma seek_all_trace:
  "seek_all topic ps tr = tr @ map (\<lambda>p. ConsumerSeek topic (se_partition p) (se_offset p)) ps"
  by (induction ps arbitrary: tr) simp_all

lemma setOffsets_check_result:
  assumes "subscribe co tr = Inr ()"
    and "describeGroup co (tr @ [ConsumerSubscribe topic]) = Inr description"
    and "get_prop description ''state'' = Inr st"
  shows "setOffsets_check co topic tr =
     (if terminal_state st then Inr ()
      else Inl (KafkaJSNonRetriableError
             [Lit ''The consumer group must have no running instances, current state: '',
              Interp st]),
      tr @ [ConsumerSubscribe topic, ConsumerDescribeGroup])"
  using assms
  by (simp add: setOffsets_check_def bind_io_def request_def lift_io_def return_io_def
      throw_io_def isConsumerGroupRunning_def terminal_state_def field_of_def)

lemma setOffsets_executor_trace:
  "\<exists>r rest. setOffsets_executor co topic ps tr =
     (r, tr @ [ConsumerOnFetch, ConsumerRun, ConsumerPause topic]
          @ map (\<lambda>p. ConsumerSeek topic (se_partition p) (se_offset p)) ps @ rest)
     \<and> (rest = [] \<or> rest = [ConsumerStop])"
  by (simp add: setOffsets_executor_def seek_all_trace Let_def
      split: run_signal.split sum.split)

text \<open>
  C4. Let \<open>setOffsets\<close> have passed its argument checks and let the consumer have
  answered \<^verbatim>\<open>describeGroup\<close> with a description of state \<open>st\<close>. If \<open>st\<close> is neither
  \<^verbatim>\<open>'Empty'\<close> nor \<^verbatim>\<open>'Dead'\<close>, the call is rejected with a KafkaJSNonRetriableError
  and the consumer has only been asked to subscribe and to describe the group: no
  \<^verbatim>\<open>run\<close>, no \<^verbatim>\<open>pause\<close>, no \<^verbatim>\<open>seek\<close>. If \<open>st\<close> is one of the two, the consumer is
  run, paused and asked to seek every listed partition to its offset, in the order of
  the list. \<open>resetOffsets\<close> ends in the same \<open>setOffsets\<close> call, with the partitions of
  the topic and the default offset.
\<close>

theorem setOffsets_requires_terminal_group:
  assumes "\<not> falsy gid" and "\<not> falsy topic" and "ps \<noteq> []"
    and "subscribe (createConsumer gid) tr = Inr ()"
    and "describeGroup (createConsumer gid) (tr @ [ConsumerSubscribe topic]) = Inr description"
    and "get_prop description ''state'' = Inr st"
  shows "(\<not> terminal_state st \<longrightarrow>
           setOffsets createConsumer gid topic (Some ps) tr =
             (Rejected (KafkaJSNonRetriableError
                [Lit ''The consumer group must have no running instances, current state: '',
                 Interp st]),
              tr @ [ConsumerSubscribe topic, ConsumerDescribeGroup]))
       \<and> (terminal_state st \<longrightarrow>
           (\<exists>r rest. setOffsets createConsumer gid topic (Some ps) tr =
              (r, tr @ [ConsumerSubscribe topic, ConsumerDescribeGroup,
                        ConsumerOnFetch, ConsumerRun, ConsumerPause topic]
                   @ map (\<lambda>p. ConsumerSeek topic (se_partition p) (se_offset p)) ps @ rest)
              \<and> (rest = [] \<or> rest = [ConsumerStop])))
       \<and> (\<forall>cl earliest tr0 parts.
             findTopicPartitions cl topic tr0 = (Inr parts, tr) \<longrightarrow>
             resetOffsets createConsumer cl gid topic earliest tr0 =
               setOffsets createConsumer gid topic
                 (Some (map (\<lambda>p. SeekEntry p (defaultOffset cl earliest)) parts)) tr)"
proof (intro conjI impI allI)
  assume "\<not> terminal_state st"
  with assms show "setOffsets createConsumer gid topic (Some ps) tr =
             (Rejected (KafkaJSNonRetriableError
                [Lit ''The consumer group must have no running instances, current state: '',
                 Interp st]),
              tr @ [ConsumerSubscribe topic, ConsumerDescribeGroup])"
    by (simp add: setOffsets_def setOffsets_check_result)
next
  assume t: "terminal_state st"
  from setOffsets_executor_trace
    [of "createConsumer gid" topic ps "tr @ [ConsumerSubscribe topic, ConsumerDescribeGroup]"]
  obtain r rest where
    "setOffsets_executor (createConsumer gid) topic ps
        (tr @ [ConsumerSubscribe topic, ConsumerDescribeGroup]) =
     (r, (tr @ [ConsumerSubscribe topic, ConsumerDescribeGroup])
          @ [ConsumerOnFetch, ConsumerRun, ConsumerPause topic]
          @ map (\<lambda>p. ConsumerSeek topic (se_partition p) (se_offset p)) ps @ rest)"
    and "rest = [] \<or> rest = [ConsumerStop]"
    by blast
  with assms t show "\<exists>r rest. setOffsets createConsumer gid topic (Some ps) tr =
              (r, tr @ [ConsumerSubscribe topic, ConsumerDescribeGroup,
                        ConsumerOnFetch, ConsumerRun, ConsumerPause topic]
                   @ map (\<lambda>p. ConsumerSeek topic (se_partition p) (se_offset p)) ps @ rest)
              \<and> (rest = [] \<or> rest = [ConsumerStop])"
    by (simp add: setOffsets_def setOffsets_check_result)
next
  fix cl earliest tr0 parts
  assume "findTopicPartitions cl topic tr0 = (Inr parts, tr)"
  with assms show "resetOffsets createConsumer cl gid topic earliest tr0 =
               setOffsets createConsumer gid topic
                 (Some (map (\<lambda>p. SeekEntry p (defaultOffset cl earliest)) parts)) tr"
    by (simp add: resetOffsets_def)
qed

theorem setOffsets_requires_terminal_group_witness:
  "setOffsets (\<lambda>g. consumer_in_state ''Stable'') (JStr ''g'') (JStr ''t'')
       (Some [SeekEntry 0 (- 2), SeekEntry 1 (- 2)])
       [AddTargetTopic (JStr ''t''), RefreshMetadataIfNecessary] =
     (Rejected (KafkaJSNonRetriableError
        [Lit ''The consumer group must have no running instances, current state: '',
         Interp (JStr ''Stable'')]),
      [AddTargetTopic (JStr ''t''), RefreshMetadataIfNecessary,
       ConsumerSubscribe (JStr ''t''), ConsumerDescribeGroup])
   \<and> resetOffsets (\<lambda>g. consumer_in_state ''Stable'') two_partition_cluster
       (JStr ''g'') (JStr ''t'') True [] =
     (Rejected (KafkaJSNonRetriableError
        [Lit ''The consumer group must have no running instances, current state: '',
         Interp (JStr ''Stable'')]),
      [AddTargetTopic (JStr ''t''), RefreshMetadataIfNecessary,
       ConsumerSubscribe (JStr ''t''), ConsumerDescribeGroup])
   \<and> setOffsets (\<lambda>g. consumer_in_state ''Empty'') (JStr ''g'') (JStr ''t'')
       (Some [SeekEntry 0 5, SeekEntry 1 7]) [] =
     (Resolved (),
      [ConsumerSubscribe (JStr ''t''), ConsumerDescribeGroup,
       ConsumerOnFetch, ConsumerRun, ConsumerPause (JStr ''t''),
       ConsumerSeek (JStr ''t'') 0 5, ConsumerSeek (JStr ''t'') 1 7, ConsumerStop])"
proof -
  let ?tr = "[AddTargetTopic (JStr ''t''), RefreshMetadataIfNecessary]"
  have parts: "findTopicPartitions two_partition_cluster (JStr ''t'') [] = (Inr [0, 1], ?tr)"
    by (simp add: findTopicPartitions_def two_partition_cluster_def quiet_cluster_def
        bind_io_def request_def lift_io_def return_io_def js_sort_def)
  have live: "\<not> terminal_state (JStr ''Stable'')"
    by (simp add: terminal_state_def)
  have dead: "terminal_state (JStr ''Empty'')"
    by (simp add: terminal_state_def)
  from setOffsets_requires_terminal_group
    [of "JStr ''g''" "JStr ''t''" "[SeekEntry 0 (- 2), SeekEntry 1 (- 2)]"
        "\<lambda>g. consumer_in_state ''Stable''" ?tr "JObj [(''state'', JStr ''Stable'')]"
        "JStr ''Stable''"]
  have a: "setOffsets (\<lambda>g. consumer_in_state ''Stable'') (JStr ''g'') (JStr ''t'')
       (Some [SeekEntry 0 (- 2), SeekEntry 1 (- 2)]) ?tr =
     (Rejected (KafkaJSNonRetriableError
        [Lit ''The consumer group must have no running instances, current state: '',
         Interp (JStr ''Stable'')]),
      ?tr @ [ConsumerSubscribe (JStr ''t''), ConsumerDescribeGroup])"
    and b: "resetOffsets (\<lambda>g. consumer_in_state ''Stable'') two_partition_cluster
       (JStr ''g'') (JStr ''t'') True [] =
       setOffsets (\<lambda>g. consumer_in_state ''Stable'') (JStr ''g'') (JStr ''t'')
         (Some (map (\<lambda>p. SeekEntry p (defaultOffset two_partition_cluster True)) [0, 1])) ?tr"
    using live parts by (simp_all add: consumer_in_state_def)
  have d: "defaultOffset two_partition_cluster True = - 2"
    by (simp add: two_partition_cluster_def quiet_cluster_def)
  from setOffsets_requires_terminal_group
    [of "JStr ''g''" "JStr ''t''" "[SeekEntry 0 5, SeekEntry 1 7]"
        "\<lambda>g. consumer_in_state ''Empty''" "[]" "JObj [(''state'', JStr ''Empty'')]"
        "JStr ''Empty''"]
  obtain r rest where c: "setOffsets (\<lambda>g. consumer_in_state ''Empty'') (JStr ''g'') (JStr ''t'')
       (Some [SeekEntry 0 5, SeekEntry 1 7]) [] =
      (r, [] @ [ConsumerSubscribe (JStr ''t''), ConsumerDescribeGroup,
                ConsumerOnFetch, ConsumerRun, ConsumerPause (JStr ''t'')]
             @ map (\<lambda>p. ConsumerSeek (JStr ''t'') (se_partition p) (se_offset p))
                 [SeekEntry 0 5, SeekEntry 1 7] @ rest)"
    using dead by (auto simp: consumer_in_state_def)
  have e: "setOffsets (\<lambda>g. consumer_in_state ''Empty'') (JStr ''g'') (JStr ''t'')
       (Some [SeekEntry 0 5, SeekEntry 1 7]) [] =
     (Resolved (),
      [ConsumerSubscribe (JStr ''t''), ConsumerDescribeGroup,
       ConsumerOnFetch, ConsumerRun, ConsumerPause (JStr ''t''),
       ConsumerSeek (JStr ''t'') 0 5, ConsumerSeek (JStr ''t'') 1 7, ConsumerStop])"
    using c
    by (simp add: setOffsets_def setOffsets_check_def setOffsets_executor_def
        consumer_in_state_def bind_io_def request_def lift_io_def return_io_def
        throw_io_def isConsumerGroupRunning_def)
  from a b d e show ?thesis by simp
qed

section \<open>Properties of fetchTopicOffsets\<close>

lemma retrier_Inr:
  "retrier n fn s = (Inr v, s') \<Longrightarrow> \<exists>s0. fn s0 = (Return v, s')"
proof (induction n arbitrary: s)
  case 0
  then show ?case
    by (cases "fn s") (auto split: outcome.splits)
next
  case (Suc n)
  show ?case
  proof (cases "fn s")
    case (Pair out s1)
    with Suc show ?thesis
      by (cases out) auto
  qed
qed

lemma pair_offsets_partitions:
  "pair_offsets hp lp = Inr es \<Longrightarrow> map e_partition es = map po_partition hp"
  by (induction hp arbitrary: es) (auto split: sum.splits)

lemma low_offset_found:
  "low_offset lp p = Inr l \<Longrightarrow> \<exists>x \<in> set lp. po_partition x = p \<and> po_offset x = l"
  by (auto simp: low_offset_def find_Some_iff split: option.splits)

lemma pair_offsets_entries:
  "pair_offsets hp lp = Inr es \<Longrightarrow> e \<in> set es \<Longrightarrow>
   e_offset e = e_high e \<and>
   (\<exists>h \<in> set hp. \<exists>l \<in> set lp.
       po_partition h = e_partition e \<and> po_partition l = e_partition e \<and>
       e_high e = po_offset h \<and> e_low e = po_offset l)"
proof (induction hp arbitrary: es)
  case Nil
  then show ?case by simp
next
  case (Cons h hs)
  from Cons.prems(1) obtain l es' where l: "low_offset lp (po_partition h) = Inr l"
    and es': "pair_offsets hs lp = Inr es'"
    and es: "es = TopicOffsetEntry (po_partition h) (po_offset h) (po_offset h) l # es'"
    by (auto split: sum.splits)
  show ?case
  proof (cases "e \<in> set es'")
    case True
    with Cons.IH [OF es'] show ?thesis by auto
  next
    case False
    with Cons.prems(2) es
    have e: "e = TopicOffsetEntry (po_partition h) (po_offset h) (po_offset h) l" by simp
    from low_offset_found [OF l] obtain x where "x \<in> set lp"
      "po_partition x = po_partition h" "po_offset x = l" by blast
    with e show ?thesis by auto
  qed
qed

lemma low_offset_reported:
  "low_offset lp p = Inr l \<Longrightarrow> reported_offset lp p = Some l"
  by (auto simp: low_offset_def reported_offset_def split: option.splits)

lemma pair_offsets_reported:
  "pair_offsets hp lp = Inr es \<Longrightarrow> distinct (map po_partition hp) \<Longrightarrow> e \<in> set es \<Longrightarrow>
   reported_offset hp (e_partition e) = Some (e_high e)
   \<and> reported_offset lp (e_partition e) = Some (e_low e)
   \<and> e_offset e = e_high e"
proof (induction hp arbitrary: es)
  case Nil
  then show ?case by simp
next
  case (Cons h hs)
  from Cons.prems(1) obtain l es' where l: "low_offset lp (po_partition h) = Inr l"
    and es': "pair_offsets hs lp = Inr es'"
    and es: "es = TopicOffsetEntry (po_partition h) (po_offset h) (po_offset h) l # es'"
    by (auto split: sum.splits)
  from Cons.prems(2) have d: "distinct (map po_partition hs)"
    and fresh: "po_partition h \<notin> set (map po_partition hs)" by simp_all
  show ?case
  proof (cases "e \<in> set es'")
    case True
    from Cons.IH [OF es' d True]
    have ih: "reported_offset hs (e_partition e) = Some (e_high e)"
      "reported_offset lp (e_partition e) = Some (e_low e)" "e_offset e = e_high e"
      by simp_all
    from True have "e_partition e \<in> set (map e_partition es')" by simp
    with pair_offsets_partitions [OF es'] fresh have "po_partition h \<noteq> e_partition e"
      by auto
    with ih show ?thesis by (simp add: reported_offset_def)
  next
    case False
    with Cons.prems(3) es
    have e: "e = TopicOffsetEntry (po_partition h) (po_offset h) (po_offset h) l" by simp
    with low_offset_reported [OF l] show ?thesis by (simp add: reported_offset_def)
  qed
qed

lemma fetchTopicOffsets_try_Inr:
  assumes "fetchTopicOffsets_try cl topic tr = (Inr es, tr')"
  shows "\<exists>h md high low.
           findTopicPartitionMetadata cl h topic = Inr md
         \<and> fetchTopicsOffset cl h topic False (map partitionId md) = Inr high
         \<and> fetchTopicsOffset cl (h @ [FetchTopicsOffset topic False (map partitionId md)])
              topic True (map partitionId md) = Inr low
         \<and> high \<noteq> [] \<and> low \<noteq> []
         \<and> pair_offsets (to_partitions (last high)) (to_partitions (last low)) = Inr es
         \<and> tr' = h @ [FetchTopicsOffset topic False (map partitionId md),
                       FetchTopicsOffset topic True (map partitionId md)]"
  using assms
  unfolding fetchTopicOffsets_try_def bind_io_def request_def lift_io_def pop_partitions_def
  by (simp split: sum.splits if_splits prod.splits)
     (rule exI [where x = "tr @ [AddTargetTopic topic, RefreshMetadataIfNecessary]"], auto)

lemma fetchTopicOffsets_Inr:
  assumes "fetchTopicOffsets retries cl topic tr = (Inr es, tr')"
  shows "\<exists>tr0. fetchTopicOffsets_try cl topic tr0 = (Inr es, tr')"
proof -
  from assms have "retrier retries (fetchTopicOffsets_attempt cl topic) tr = (Inr es, tr')"
    by (simp add: fetchTopicOffsets_def split: if_splits)
  then obtain tr0 where "fetchTopicOffsets_attempt cl topic tr0 = (Return es, tr')"
    by (blast dest: retrier_Inr)
  then have "fetchTopicOffsets_try cl topic tr0 = (Inr es, tr')"
    by (auto simp: fetchTopicOffsets_attempt_def request_def split: sum.splits prod.splits if_splits)
  then show ?thesis ..
qed

text \<open>
  C7. Let the metadata of the topic list the partitions \<open>pids\<close>, let the cluster answer
  the from-end query with one entry for each requested partition, and let no
  from-beginning offset it reports for a partition exceed a from-end offset it reports
  for that partition. Then a successful \<open>fetchTopicOffsets\<close> returns as many entries
  as there are partitions, one for each partition id, and in every entry \<open>offset\<close>
  equals \<open>high\<close> and \<open>low\<close> is at most \<open>high\<close>. Moreover the trace of the call
  ends with the from-end query followed by the from-beginning query, \<open>high\<close> is the
  offset that the answer to the from-end query reports for the partition of the entry,
  and \<open>low\<close> is the offset that the answer to the from-beginning query reports for it.
\<close>

theorem fetchTopicOffsets_entries:
  assumes ok: "fetchTopicOffsets retries cl topic tr = (Inr es, tr')"
    and md: "\<And>h md. findTopicPartitionMetadata cl h topic = Inr md
               \<Longrightarrow> map partitionId md = pids"
    and dist: "distinct pids"
    and high: "\<And>h r. fetchTopicsOffset cl h topic False pids = Inr r \<Longrightarrow> r \<noteq> []
               \<Longrightarrow> distinct (map po_partition (to_partitions (last r)))
                 \<and> set (map po_partition (to_partitions (last r))) = set pids"
    and marks: "\<And>h h' r r' x x'.
               fetchTopicsOffset cl h topic False pids = Inr r \<Longrightarrow> r \<noteq> [] \<Longrightarrow>
               fetchTopicsOffset cl h' topic True pids = Inr r' \<Longrightarrow> r' \<noteq> [] \<Longrightarrow>
               x \<in> set (to_partitions (last r)) \<Longrightarrow> x' \<in> set (to_partitions (last r')) \<Longrightarrow>
               po_partition x = po_partition x' \<Longrightarrow> po_offset x' \<le> po_offset x"
  shows "length es = length pids
       \<and> distinct (map e_partition es)
       \<and> set (map e_partition es) = set pids
       \<and> list_all (\<lambda>e. e_offset e = e_high e \<and> e_low e \<le> e_high e) es
       \<and> (\<exists>h hi lo.
             tr' = h @ [FetchTopicsOffset topic False pids, FetchTopicsOffset topic True pids]
           \<and> fetchTopicsOffset cl h topic False pids = Inr hi \<and> hi \<noteq> []
           \<and> fetchTopicsOffset cl (h @ [FetchTopicsOffset topic False pids]) topic True pids =
               Inr lo \<and> lo \<noteq> []
           \<and> list_all
                (\<lambda>e. reported_offset (to_partitions (last hi)) (e_partition e) = Some (e_high e)
                   \<and> reported_offset (to_partitions (last lo)) (e_partition e) = Some (e_low e))
                es)"
proof -
  from fetchTopicOffsets_Inr [OF ok] obtain tr0
    where "fetchTopicOffsets_try cl topic tr0 = (Inr es, tr')" ..
  from fetchTopicOffsets_try_Inr [OF this] obtain h m hi lo
    where m: "findTopicPartitionMetadata cl h topic = Inr m"
      and hi: "fetchTopicsOffset cl h topic False (map partitionId m) = Inr hi"
      and lo: "fetchTopicsOffset cl (h @ [FetchTopicsOffset topic False (map partitionId m)])
                 topic True (map partitionId m) = Inr lo"
      and ne: "hi \<noteq> []" "lo \<noteq> []"
      and po: "pair_offsets (to_partitions (last hi)) (to_partitions (last lo)) = Inr es"
      and trace: "tr' = h @ [FetchTopicsOffset topic False (map partitionId m),
                             FetchTopicsOffset topic True (map partitionId m)]"
    by blast
  from md [OF m] have pids: "map partitionId m = pids" .
  from high [OF hi [unfolded pids] ne(1)]
  have d: "distinct (map po_partition (to_partitions (last hi)))"
    and s: "set (map po_partition (to_partitions (last hi))) = set pids" by simp_all
  from pair_offsets_partitions [OF po]
  have parts: "map e_partition es = map po_partition (to_partitions (last hi))" .
  have "length es = length (map po_partition (to_partitions (last hi)))"
    using parts by (metis length_map)
  also have "\<dots> = card (set (map po_partition (to_partitions (last hi))))"
    using distinct_card [OF d] by simp
  also have "\<dots> = card (set pids)" using s by simp
  also have "\<dots> = length pids" using distinct_card [OF dist] .
  finally have len: "length es = length pids" .
  have "e_offset e = e_high e \<and> e_low e \<le> e_high e" if "e \<in> set es" for e
  proof -
    from pair_offsets_entries [OF po that] obtain x x'
      where "e_offset e = e_high e" "x \<in> set (to_partitions (last hi))"
        "x' \<in> set (to_partitions (last lo))" "po_partition x = e_partition e"
        "po_partition x' = e_partition e" "e_high e = po_offset x" "e_low e = po_offset x'"
      by blast
    with marks [OF hi [unfolded pids] ne(1) lo [unfolded pids] ne(2), of x x']
    show ?thesis by simp
  qed
  then have bounds: "list_all (\<lambda>e. e_offset e = e_high e \<and> e_low e \<le> e_high e) es"
    by (simp add: list_all_iff)
  have "list_all
          (\<lambda>e. reported_offset (to_partitions (last hi)) (e_partition e) = Some (e_high e)
             \<and> reported_offset (to_partitions (last lo)) (e_partition e) = Some (e_low e))
          es"
    using pair_offsets_reported [OF po d] by (simp add: list_all_iff)
  with hi [unfolded pids] lo [unfolded pids] ne trace [unfolded pids]
  have reported: "\<exists>h hi lo.
             tr' = h @ [FetchTopicsOffset topic False pids, FetchTopicsOffset topic True pids]
           \<and> fetchTopicsOffset cl h topic False pids = Inr hi \<and> hi \<noteq> []
           \<and> fetchTopicsOffset cl (h @ [FetchTopicsOffset topic False pids]) topic True pids =
               Inr lo \<and> lo \<noteq> []
           \<and> list_all
                (\<lambda>e. reported_offset (to_partitions (last hi)) (e_partition e) = Some (e_high e)
                   \<and> reported_offset (to_partitions (last lo)) (e_partition e) = Some (e_low e))
                es"
    by blast
  from len d s parts have "length es = length pids" "distinct (map e_partition es)"
    "set (map e_partition es) = set pids" by simp_all
  with bounds reported show ?thesis by (intro conjI)
qed

theorem fetchTopicOffsets_entries_witness:
  "fetchTopicOffsets 3 offsets_cluster (JStr ''t'') [] =
     (Inr [TopicOffsetEntry 0 10 10 0, TopicOffsetEntry 1 20 20 5],
      [AddTargetTopic (JStr ''t''), RefreshMetadataIfNecessary,
       FetchTopicsOffset (JStr ''t'') False [0, 1], FetchTopicsOffset (JStr ''t'') True [0, 1]])
   \<and> length [TopicOffsetEntry 0 10 10 0, TopicOffsetEntry 1 20 20 5] = length [0::nat, 1]
   \<and> distinct (map e_partition [TopicOffsetEntry 0 10 10 0, TopicOffsetEntry 1 20 20 5])
   \<and> set (map e_partition [TopicOffsetEntry 0 10 10 0, TopicOffsetEntry 1 20 20 5]) = set [0, 1]
   \<and> list_all (\<lambda>e. e_offset e = e_high e \<and> e_low e \<le> e_high e)
        [TopicOffsetEntry 0 10 10 0, TopicOffsetEntry 1 20 20 5]
   \<and> (\<exists>h hi lo.
         [AddTargetTopic (JStr ''t''), RefreshMetadataIfNecessary,
          FetchTopicsOffset (JStr ''t'') False [0, 1], FetchTopicsOffset (JStr ''t'') True [0, 1]] =
         h @ [FetchTopicsOffset (JStr ''t'') False [0, 1], FetchTopicsOffset (JStr ''t'') True [0, 1]]
       \<and> fetchTopicsOffset offsets_cluster h (JStr ''t'') False [0, 1] = Inr hi \<and> hi \<noteq> []
       \<and> fetchTopicsOffset offsets_cluster (h @ [FetchTopicsOffset (JStr ''t'') False [0, 1]])
           (JStr ''t'') True [0, 1] = Inr lo \<and> lo \<noteq> []
       \<and> list_all
            (\<lambda>e. reported_offset (to_partitions (last hi)) (e_partition e) = Some (e_high e)
               \<and> reported_offset (to_partitions (last lo)) (e_partition e) = Some (e_low e))
            [TopicOffsetEntry 0 10 10 0, TopicOffsetEntry 1 20 20 5])"
proof -
  have ok: "fetchTopicOffsets 3 offsets_cluster (JStr ''t'') [] =
     (Inr [TopicOffsetEntry 0 10 10 0, TopicOffsetEntry 1 20 20 5],
      [AddTargetTopic (JStr ''t''), RefreshMetadataIfNecessary,
       FetchTopicsOffset (JStr ''t'') False [0, 1], FetchTopicsOffset (JStr ''t'') True [0, 1]])"
    by (simp add: fetchTopicOffsets_def fetchTopicOffsets_attempt_def fetchTopicOffsets_try_def
        offsets_cluster_def quiet_cluster_def bind_io_def request_def lift_io_def
        pop_partitions_def low_offset_def numeral_3_eq_3)
  have md: "\<And>h md. findTopicPartitionMetadata offsets_cluster h (JStr ''t'') = Inr md
               \<Longrightarrow> map partitionId md = [0, 1]"
    by (auto simp: offsets_cluster_def)
  have dist: "distinct [0::nat, 1]" by simp
  have high: "\<And>h r. fetchTopicsOffset offsets_cluster h (JStr ''t'') False [0, 1] = Inr r
               \<Longrightarrow> r \<noteq> []
               \<Longrightarrow> distinct (map po_partition (to_partitions (last r)))
                 \<and> set (map po_partition (to_partitions (last r))) = set [0, 1]"
    by (auto simp: offsets_cluster_def)
  have marks: "\<And>h h' r r' x x'.
               fetchTopicsOffset offsets_cluster h (JStr ''t'') False [0, 1] = Inr r \<Longrightarrow> r \<noteq> [] \<Longrightarrow>
               fetchTopicsOffset offsets_cluster h' (JStr ''t'') True [0, 1] = Inr r' \<Longrightarrow> r' \<noteq> [] \<Longrightarrow>
               x \<in> set (to_partitions (last r)) \<Longrightarrow> x' \<in> set (to_partitions (last r')) \<Longrightarrow>
               po_partition x = po_partition x' \<Longrightarrow> po_offset x' \<le> po_offset x"
    by (auto simp: offsets_cluster_def)
  note entries = fetchTopicOffsets_entries [OF ok md dist high marks]
  show ?thesis by (rule conjI [OF ok entries])
qed

section \<open>Properties of createTopics\<close>

lemma createTopics_try_created:
  assumes "refreshMetadata cl tr = Inr ()"
    and "findControllerBroker cl (tr @ [RefreshMetadata]) = Inr b"
    and "broker_createTopics cl (tr @ [RefreshMetadata, FindControllerBroker]) b topics
           validateOnly timeout = Inr ()"
  shows "createTopics_try polls cl topics validateOnly timeout waitForLeaders tr =
     (if waitForLeaders
      then (case wait_for_leaders polls cl b topics
                   (tr @ [RefreshMetadata, FindControllerBroker,
                          BrokerCreateTopics b topics validateOnly timeout]) of
              (Inl e, tr') \<Rightarrow> (Inl e, tr')
            | (Inr v, tr') \<Rightarrow> (Inr True, tr'))
      else (Inr True, tr @ [RefreshMetadata, FindControllerBroker,
                            BrokerCreateTopics b topics validateOnly timeout]))"
  using assms
  by (simp add: createTopics_try_def bind_io_def request_def return_io_def
      split: prod.splits sum.splits)

lemma createTopics_try_rejected:
  assumes "refreshMetadata cl tr = Inr ()"
    and "findControllerBroker cl (tr @ [RefreshMetadata]) = Inr b"
    and "broker_createTopics cl (tr @ [RefreshMetadata, FindControllerBroker]) b topics
           validateOnly timeout = Inl e"
  shows "createTopics_try polls cl topics validateOnly timeout waitForLeaders tr =
     (Inl e, tr @ [RefreshMetadata, FindControllerBroker,
                   BrokerCreateTopics b topics validateOnly timeout])"
  using assms
  by (simp add: createTopics_try_def bind_io_def request_def return_io_def)

lemma retrier_first_bail:
  "fn s = (Bail e, s') \<Longrightarrow> retrier n fn s = (Inl e, s')"
  by (cases n) simp_all

lemma after_throws_retrier:
  "after_throws k fn s = Some sk \<Longrightarrow> k \<le> n \<Longrightarrow> retrier n fn s = retrier (n - k) fn sk"
proof (induction k arbitrary: s n)
  case 0
  then show ?case by simp
next
  case (Suc k)
  from Suc.prems(2) obtain m where n: "n = Suc m" and km: "k \<le> m"
    by (cases n) auto
  obtain out s1 where f: "fn s = (out, s1)" by fastforce
  with Suc.prems(1) obtain e where out: "out = Throw e" and rest: "after_throws k fn s1 = Some sk"
    by (cases out) auto
  from Suc.IH [OF rest km] f out n show ?case by simp
qed

lemma after_throws_return:
  assumes "after_throws k fn s = Some sk" and "k \<le> n" and "fn sk = (Return v, s')"
  shows "retrier n fn s = (Inr v, s')"
  using after_throws_retrier [OF assms(1,2)]
    retrier_first_return [where fn = fn and n = "n - k", OF assms(3)]
  by simp

lemma retrier_Inr_after_throws:
  "retrier n fn s = (Inr v, s') \<Longrightarrow>
   \<exists>k sk. k \<le> n \<and> after_throws k fn s = Some sk \<and> fn sk = (Return v, s')"
proof (induction n arbitrary: s)
  case 0
  then have "fn s = (Return v, s')"
    by (cases "fn s") (auto split: outcome.splits)
  then have "0 \<le> (0::nat) \<and> after_throws 0 fn s = Some s \<and> fn s = (Return v, s')" by simp
  then show ?case by blast
next
  case (Suc n)
  obtain out s1 where f: "fn s = (out, s1)" by fastforce
  show ?case
  proof (cases out)
    case (Return v1)
    with Suc.prems f have "fn s = (Return v, s')" by simp
    then have "0 \<le> Suc n \<and> after_throws 0 fn s = Some s \<and> fn s = (Return v, s')" by simp
    then show ?thesis by blast
  next
    case (Throw e)
    with Suc.prems f have "retrier n fn s1 = (Inr v, s')" by simp
    from Suc.IH [OF this] obtain k sk where
      "k \<le> n" "after_throws k fn s1 = Some sk" "fn sk = (Return v, s')" by blast
    with f Throw have "Suc k \<le> Suc n \<and> after_throws (Suc k) fn s = Some sk
        \<and> fn sk = (Return v, s')" by simp
    then show ?thesis by blast
  next
    case (Bail e)
    with Suc.prems f show ?thesis by simp
  qed
qed

lemma createTopics_try_True:
  assumes "createTopics_try polls cl topics validateOnly timeout waitForLeaders tr = (Inr r, tb)"
  shows "r \<and> (\<exists>b v. refreshMetadata cl tr = Inr ()
          \<and> findControllerBroker cl (tr @ [RefreshMetadata]) = Inr b
          \<and> broker_createTopics cl (tr @ [RefreshMetadata, FindControllerBroker]) b topics
               validateOnly timeout = Inr ()
          \<and> (if waitForLeaders
              then wait_for_leaders polls cl b topics
                     (tr @ [RefreshMetadata, FindControllerBroker,
                            BrokerCreateTopics b topics validateOnly timeout]) = (Inr v, tb)
              else tb = tr @ [RefreshMetadata, FindControllerBroker,
                              BrokerCreateTopics b topics validateOnly timeout]))"
proof -
  from assms obtain u where u: "refreshMetadata cl tr = Inr u"
    by (cases "refreshMetadata cl tr")
       (simp_all add: createTopics_try_def bind_io_def request_def)
  from assms u obtain b where b: "findControllerBroker cl (tr @ [RefreshMetadata]) = Inr b"
    by (cases "findControllerBroker cl (tr @ [RefreshMetadata])")
       (simp_all add: createTopics_try_def bind_io_def request_def)
  from assms u b obtain w where
    c: "broker_createTopics cl (tr @ [RefreshMetadata, FindControllerBroker]) b topics
          validateOnly timeout = Inr w"
    by (cases "broker_createTopics cl (tr @ [RefreshMetadata, FindControllerBroker]) b topics
          validateOnly timeout")
       (simp_all add: createTopics_try_def bind_io_def request_def)
  from u b c have created:
    "createTopics_try polls cl topics validateOnly timeout waitForLeaders tr =
     (if waitForLeaders
      then (case wait_for_leaders polls cl b topics
                   (tr @ [RefreshMetadata, FindControllerBroker,
                          BrokerCreateTopics b topics validateOnly timeout]) of
              (Inl e, tr') \<Rightarrow> (Inl e, tr')
            | (Inr v, tr') \<Rightarrow> (Inr True, tr'))
      else (Inr True, tr @ [RefreshMetadata, FindControllerBroker,
                            BrokerCreateTopics b topics validateOnly timeout]))"
    by (simp add: createTopics_try_created)
  show ?thesis
  proof (cases waitForLeaders)
    case False
    with created assms u b c show ?thesis by auto
  next
    case True
    with created assms obtain v where
      "wait_for_leaders polls cl b topics
         (tr @ [RefreshMetadata, FindControllerBroker,
                BrokerCreateTopics b topics validateOnly timeout]) = (Inr v, tb)" and "r"
      by (auto split: prod.splits sum.splits)
    with True u b c show ?thesis by auto
  qed
qed

lemma orders_topics_valid: "createTopics_validate orders_topics = None"
  by (simp add: createTopics_validate_def orders_topics_def topic_names_def set_values_def
      field_of_def)

lemma orders_topic_names: "topic_names orders_topics = [JStr ''orders'']"
  by (simp add: orders_topics_def topic_names_def set_values_def field_of_def)

text \<open>
  C5. For a valid topics argument, \<open>createTopics\<close> resolves to \<open>True\<close> when, in
  the attempt reached after any number of attempts retried on NOT_CONTROLLER (within the
  retry budget), the metadata refresh, the controller lookup and the broker's create call
  succeed and, with \<open>waitForLeaders\<close>, the leader wait resolves. It resolves to
  \<open>False\<close> and does not reject when in such an attempt the create call throws an
  error of type TOPIC_ALREADY_EXISTS. Conversely, every call that resolves does so in an
  attempt reached this way: to \<open>True\<close> only if that attempt's create call succeeded
  and, with \<open>waitForLeaders\<close>, its leader wait resolved; to \<open>False\<close> only if
  that attempt threw an error of type TOPIC_ALREADY_EXISTS. The witness calls
  \<open>createTopics\<close> twice with the same topic on a cluster whose first metadata refresh
  is retried: \<open>True\<close>, then \<open>False\<close>.
\<close>

theorem createTopics_resolution:
  assumes valid: "createTopics_validate topics = None"
  shows "(k \<le> retries
          \<and> after_throws k
               (createTopics_attempt polls cl topics validateOnly timeout waitForLeaders) tr =
             Some ta
          \<and> refreshMetadata cl ta = Inr ()
          \<and> findControllerBroker cl (ta @ [RefreshMetadata]) = Inr b
          \<and> broker_createTopics cl (ta @ [RefreshMetadata, FindControllerBroker]) b topics
               validateOnly timeout = Inr ()
          \<and> (if waitForLeaders
              then wait_for_leaders polls cl b topics
                     (ta @ [RefreshMetadata, FindControllerBroker,
                            BrokerCreateTopics b topics validateOnly timeout]) = (Inr v, tb)
              else tb = ta @ [RefreshMetadata, FindControllerBroker,
                              BrokerCreateTopics b topics validateOnly timeout])
          \<longrightarrow> createTopics retries polls cl topics validateOnly timeout waitForLeaders tr =
                (Inr True, tb))
       \<and> (k' \<le> retries
          \<and> after_throws k'
               (createTopics_attempt polls cl topics validateOnly timeout waitForLeaders) tr' =
             Some ta'
          \<and> refreshMetadata cl ta' = Inr ()
          \<and> findControllerBroker cl (ta' @ [RefreshMetadata]) = Inr b'
          \<and> broker_createTopics cl (ta' @ [RefreshMetadata, FindControllerBroker]) b' topics
               validateOnly timeout = Inl e
          \<and> etype e = Some ''TOPIC_ALREADY_EXISTS''
          \<longrightarrow> createTopics retries polls cl topics validateOnly timeout waitForLeaders tr' =
                (Inr False, ta' @ [RefreshMetadata, FindControllerBroker,
                                   BrokerCreateTopics b' topics validateOnly timeout]))
       \<and> (createTopics retries polls cl topics validateOnly timeout waitForLeaders tr'' =
            (Inr r, tc)
          \<longrightarrow> (\<exists>j tj. j \<le> retries
                \<and> after_throws j
                     (createTopics_attempt polls cl topics validateOnly timeout waitForLeaders)
                     tr'' = Some tj
                \<and> (if r
                    then (\<exists>c w. refreshMetadata cl tj = Inr ()
                           \<and> findControllerBroker cl (tj @ [RefreshMetadata]) = Inr c
                           \<and> broker_createTopics cl (tj @ [RefreshMetadata, FindControllerBroker])
                                c topics validateOnly timeout = Inr ()
                           \<and> (if waitForLeaders
                               then wait_for_leaders polls cl c topics
                                      (tj @ [RefreshMetadata, FindControllerBroker,
                                             BrokerCreateTopics c topics validateOnly timeout]) =
                                    (Inr w, tc)
                               else tc = tj @ [RefreshMetadata, FindControllerBroker,
                                               BrokerCreateTopics c topics validateOnly timeout]))
                    else (\<exists>x. createTopics_try polls cl topics validateOnly timeout
                                 waitForLeaders tj = (Inl x, tc)
                           \<and> etype x = Some ''TOPIC_ALREADY_EXISTS''))))"
proof (intro conjI impI)
  let ?A = "createTopics_attempt polls cl topics validateOnly timeout waitForLeaders"
  assume a: "k \<le> retries
          \<and> after_throws k ?A tr = Some ta
          \<and> refreshMetadata cl ta = Inr ()
          \<and> findControllerBroker cl (ta @ [RefreshMetadata]) = Inr b
          \<and> broker_createTopics cl (ta @ [RefreshMetadata, FindControllerBroker]) b topics
               validateOnly timeout = Inr ()
          \<and> (if waitForLeaders
              then wait_for_leaders polls cl b topics
                     (ta @ [RefreshMetadata, FindControllerBroker,
                            BrokerCreateTopics b topics validateOnly timeout]) = (Inr v, tb)
              else tb = ta @ [RefreshMetadata, FindControllerBroker,
                              BrokerCreateTopics b topics validateOnly timeout])"
  then have "createTopics_try polls cl topics validateOnly timeout waitForLeaders ta =
      (Inr True, tb)"
    by (simp add: createTopics_try_created split: if_splits)
  then have "?A ta = (Return True, tb)"
    by (simp add: createTopics_attempt_def)
  with a have "retrier retries ?A tr = (Inr True, tb)"
    by (blast intro: after_throws_return)
  with valid show "createTopics retries polls cl topics validateOnly timeout waitForLeaders tr =
      (Inr True, tb)"
    by (simp add: createTopics_def)
next
  let ?A = "createTopics_attempt polls cl topics validateOnly timeout waitForLeaders"
  let ?tb = "ta' @ [RefreshMetadata, FindControllerBroker,
                    BrokerCreateTopics b' topics validateOnly timeout]"
  assume a: "k' \<le> retries
          \<and> after_throws k' ?A tr' = Some ta'
          \<and> refreshMetadata cl ta' = Inr ()
          \<and> findControllerBroker cl (ta' @ [RefreshMetadata]) = Inr b'
          \<and> broker_createTopics cl (ta' @ [RefreshMetadata, FindControllerBroker]) b' topics
               validateOnly timeout = Inl e
          \<and> etype e = Some ''TOPIC_ALREADY_EXISTS''"
  then have "createTopics_try polls cl topics validateOnly timeout waitForLeaders ta' =
      (Inl e, ?tb)"
    by (simp add: createTopics_try_rejected)
  with a have "?A ta' = (Return False, ?tb)"
    by (simp add: createTopics_attempt_def createTopics_catch_def)
  with a have "retrier retries ?A tr' = (Inr False, ?tb)"
    by (blast intro: after_throws_return)
  with valid show "createTopics retries polls cl topics validateOnly timeout waitForLeaders tr' =
      (Inr False, ?tb)"
    by (simp add: createTopics_def)
next
  let ?A = "createTopics_attempt polls cl topics validateOnly timeout waitForLeaders"
  assume "createTopics retries polls cl topics validateOnly timeout waitForLeaders tr'' =
            (Inr r, tc)"
  with valid have "retrier retries ?A tr'' = (Inr r, tc)"
    by (simp add: createTopics_def)
  from retrier_Inr_after_throws [OF this] obtain j tj where j: "j \<le> retries"
    and at: "after_throws j ?A tr'' = Some tj" and ret: "?A tj = (Return r, tc)"
    by blast
  have "if r
        then (\<exists>c w. refreshMetadata cl tj = Inr ()
               \<and> findControllerBroker cl (tj @ [RefreshMetadata]) = Inr c
               \<and> broker_createTopics cl (tj @ [RefreshMetadata, FindControllerBroker])
                    c topics validateOnly timeout = Inr ()
               \<and> (if waitForLeaders
                   then wait_for_leaders polls cl c topics
                          (tj @ [RefreshMetadata, FindControllerBroker,
                                 BrokerCreateTopics c topics validateOnly timeout]) =
                        (Inr w, tc)
                   else tc = tj @ [RefreshMetadata, FindControllerBroker,
                                   BrokerCreateTopics c topics validateOnly timeout]))
        else (\<exists>x. createTopics_try polls cl topics validateOnly timeout
                     waitForLeaders tj = (Inl x, tc)
               \<and> etype x = Some ''TOPIC_ALREADY_EXISTS'')"
  proof (cases "createTopics_try polls cl topics validateOnly timeout waitForLeaders tj")
    case (Pair res t1)
    show ?thesis
    proof (cases res)
      case (Inr r1)
      with Pair ret have eq: "r1 = r" "t1 = tc"
        by (simp_all add: createTopics_attempt_def)
      from Pair Inr eq have
        "createTopics_try polls cl topics validateOnly timeout waitForLeaders tj = (Inr r, tc)"
        by simp
      from createTopics_try_True [OF this] show ?thesis by simp
    next
      case (Inl x)
      with Pair ret have "createTopics_catch x = Return r" "t1 = tc"
        by (simp_all add: createTopics_attempt_def)
      then have "\<not> r" "etype x = Some ''TOPIC_ALREADY_EXISTS''" "t1 = tc"
        by (auto simp: createTopics_catch_def split: if_splits)
      with Pair Inl show ?thesis by auto
    qed
  qed
  with j at show "\<exists>j tj. j \<le> retries \<and> after_throws j ?A tr'' = Some tj
                \<and> (if r
                    then (\<exists>c w. refreshMetadata cl tj = Inr ()
                           \<and> findControllerBroker cl (tj @ [RefreshMetadata]) = Inr c
                           \<and> broker_createTopics cl (tj @ [RefreshMetadata, FindControllerBroker])
                                c topics validateOnly timeout = Inr ()
                           \<and> (if waitForLeaders
                               then wait_for_leaders polls cl c topics
                                      (tj @ [RefreshMetadata, FindControllerBroker,
                                             BrokerCreateTopics c topics validateOnly timeout]) =
                                    (Inr w, tc)
                               else tc = tj @ [RefreshMetadata, FindControllerBroker,
                                               BrokerCreateTopics c topics validateOnly timeout]))
                    else (\<exists>x. createTopics_try polls cl topics validateOnly timeout
                                 waitForLeaders tj = (Inl x, tc)
                           \<and> etype x = Some ''TOPIC_ALREADY_EXISTS''))"
    by blast
qed


theorem createTopics_resolution_witness:
  "createTopics 3 5 settling_cluster orders_topics JUndefined JUndefined True [] =
     (Inr True,
      [RefreshMetadata, RefreshMetadata, FindControllerBroker,
       BrokerCreateTopics 1 orders_topics JUndefined JUndefined,
       BrokerMetadata 1 [JStr ''orders'']])
   \<and> createTopics 3 5 settling_cluster orders_topics JUndefined JUndefined True
       [RefreshMetadata, RefreshMetadata, FindControllerBroker,
        BrokerCreateTopics 1 orders_topics JUndefined JUndefined,
        BrokerMetadata 1 [JStr ''orders'']] =
     (Inr False,
      [RefreshMetadata, RefreshMetadata, FindControllerBroker,
       BrokerCreateTopics 1 orders_topics JUndefined JUndefined,
       BrokerMetadata 1 [JStr ''orders''],
       RefreshMetadata, FindControllerBroker,
       BrokerCreateTopics 1 orders_topics JUndefined JUndefined])
   \<and> (\<exists>j tj. j \<le> (3::nat)
        \<and> after_throws j
             (createTopics_attempt 5 settling_cluster orders_topics JUndefined JUndefined True)
             [] = Some tj
        \<and> (\<exists>c w. refreshMetadata settling_cluster tj = Inr ()
              \<and> findControllerBroker settling_cluster (tj @ [RefreshMetadata]) = Inr c
              \<and> broker_createTopics settling_cluster
                   (tj @ [RefreshMetadata, FindControllerBroker]) c orders_topics
                   JUndefined JUndefined = Inr ()
              \<and> wait_for_leaders 5 settling_cluster c orders_topics
                   (tj @ [RefreshMetadata, FindControllerBroker,
                          BrokerCreateTopics c orders_topics JUndefined JUndefined]) =
                 (Inr w,
                  [RefreshMetadata, RefreshMetadata, FindControllerBroker,
                   BrokerCreateTopics 1 orders_topics JUndefined JUndefined,
                   BrokerMetadata 1 [JStr ''orders'']])))"
proof -
  let ?c = "BrokerCreateTopics 1 orders_topics JUndefined JUndefined"
  let ?m = "BrokerMetadata 1 [JStr ''orders'']"
  let ?A = "createTopics_attempt 5 settling_cluster orders_topics JUndefined JUndefined True"
  let ?first = "[RefreshMetadata, RefreshMetadata, FindControllerBroker, ?c, ?m]"
  note res = createTopics_resolution [OF orders_topics_valid,
      where cl = settling_cluster and retries = 3 and polls = 5 and validateOnly = JUndefined
        and timeout = JUndefined and waitForLeaders = True
        and k = "Suc 0" and tr = "[]" and ta = "[RefreshMetadata]" and b = 1
        and v = "JObj []" and tb = ?first
        and k' = 0 and tr' = ?first and ta' = ?first and b' = 1
        and e = "KafkaJSProtocolError ''TOPIC_ALREADY_EXISTS''"
        and tr'' = "[]" and r = True and tc = ?first]
  have thrown: "after_throws (Suc 0) ?A [] = Some [RefreshMetadata]"
    by (simp add: createTopics_attempt_def createTopics_try_def createTopics_catch_def
        bind_io_def request_def settling_cluster_def once_cluster_def quiet_cluster_def)
  have w: "wait_for_leaders 5 settling_cluster 1 orders_topics
             ([RefreshMetadata] @ [RefreshMetadata, FindControllerBroker, ?c]) =
           (Inr (JObj []), ?first)"
    by (simp add: wait_for_leaders_def retryOnLeaderNotAvailable_def leader_callback_def
        request_def settling_cluster_def once_cluster_def quiet_cluster_def orders_topic_names
        eval_nat_numeral)
  have h1: "Suc 0 \<le> (3::nat)
          \<and> after_throws (Suc 0) ?A [] = Some [RefreshMetadata]
          \<and> refreshMetadata settling_cluster [RefreshMetadata] = Inr ()
          \<and> findControllerBroker settling_cluster ([RefreshMetadata] @ [RefreshMetadata]) = Inr 1
          \<and> broker_createTopics settling_cluster
               ([RefreshMetadata] @ [RefreshMetadata, FindControllerBroker]) 1 orders_topics
               JUndefined JUndefined = Inr ()
          \<and> (if True
              then wait_for_leaders 5 settling_cluster 1 orders_topics
                     ([RefreshMetadata] @ [RefreshMetadata, FindControllerBroker, ?c]) =
                   (Inr (JObj []), ?first)
              else ?first = [RefreshMetadata] @ [RefreshMetadata, FindControllerBroker, ?c])"
    unfolding thrown w
    by (simp add: settling_cluster_def once_cluster_def quiet_cluster_def)
  have h2: "0 \<le> (3::nat)
          \<and> after_throws 0 ?A ?first = Some ?first
          \<and> refreshMetadata settling_cluster ?first = Inr ()
          \<and> findControllerBroker settling_cluster (?first @ [RefreshMetadata]) = Inr 1
          \<and> broker_createTopics settling_cluster
               (?first @ [RefreshMetadata, FindControllerBroker]) 1 orders_topics
               JUndefined JUndefined = Inl (KafkaJSProtocolError ''TOPIC_ALREADY_EXISTS'')
          \<and> etype (KafkaJSProtocolError ''TOPIC_ALREADY_EXISTS'') = Some ''TOPIC_ALREADY_EXISTS''"
    by (simp add: settling_cluster_def once_cluster_def quiet_cluster_def)
  note e1 = res [THEN conjunct1, THEN mp, OF h1]
  note e2 = res [THEN conjunct2, THEN conjunct1, THEN mp, OF h2]
  note e3 = res [THEN conjunct2, THEN conjunct2, THEN mp, OF e1]
  from e2 have e2': "createTopics 3 5 settling_cluster orders_topics JUndefined JUndefined True
       ?first =
     (Inr False, [RefreshMetadata, RefreshMetadata, FindControllerBroker, ?c, ?m,
                  RefreshMetadata, FindControllerBroker, ?c])"
    by (simp only: append.simps)
  from e3 have e3': "\<exists>j tj. j \<le> (3::nat)
        \<and> after_throws j ?A [] = Some tj
        \<and> (\<exists>c w. refreshMetadata settling_cluster tj = Inr ()
              \<and> findControllerBroker settling_cluster (tj @ [RefreshMetadata]) = Inr c
              \<and> broker_createTopics settling_cluster
                   (tj @ [RefreshMetadata, FindControllerBroker]) c orders_topics
                   JUndefined JUndefined = Inr ()
              \<and> wait_for_leaders 5 settling_cluster c orders_topics
                   (tj @ [RefreshMetadata, FindControllerBroker,
                          BrokerCreateTopics c orders_topics JUndefined JUndefined]) =
                 (Inr w, ?first))"
    by (simp only: if_True)
  show ?thesis
    by (rule conjI [OF e1 conjI [OF e2' e3']])
qed

text \<open>
  A create call that succeeds does not by itself make \<open>createTopics\<close> resolve to
  \<open>True\<close> when \<open>waitForLeaders\<close> is set: if no leader appears the call rejects
  with the leader timeout, and if the leader wait throws NOT_CONTROLLER the call is
  retried, the second create call meets TOPIC_ALREADY_EXISTS, and the call resolves to
  \<open>False\<close>.
\<close>

theorem createTopics_created_but_not_true:
  "broker_createTopics leaderless_cluster [RefreshMetadata, FindControllerBroker] 1
       orders_topics JUndefined JUndefined = Inr ()
   \<and> createTopics 3 4 leaderless_cluster orders_topics JUndefined JUndefined True [] =
     (Inl (KafkaJSTimeout [Lit ''Timed out while waiting for topic leaders'']),
      [RefreshMetadata, FindControllerBroker,
       BrokerCreateTopics 1 orders_topics JUndefined JUndefined,
       BrokerMetadata 1 [JStr ''orders''], BrokerMetadata 1 [JStr ''orders''],
       BrokerMetadata 1 [JStr ''orders''], BrokerMetadata 1 [JStr ''orders'']])
   \<and> broker_createTopics moving_cluster [RefreshMetadata, FindControllerBroker] 1
       orders_topics JUndefined JUndefined = Inr ()
   \<and> createTopics 3 4 moving_cluster orders_topics JUndefined JUndefined True [] =
     (Inr False,
      [RefreshMetadata, FindControllerBroker,
       BrokerCreateTopics 1 orders_topics JUndefined JUndefined,
       BrokerMetadata 1 [JStr ''orders''],
       RefreshMetadata, FindControllerBroker,
       BrokerCreateTopics 1 orders_topics JUndefined JUndefined])"
proof -
  let ?c = "BrokerCreateTopics 1 orders_topics JUndefined JUndefined"
  let ?m = "BrokerMetadata 1 [JStr ''orders'']"
  have a: "broker_createTopics leaderless_cluster [RefreshMetadata, FindControllerBroker] 1
       orders_topics JUndefined JUndefined = Inr ()"
    by (simp add: leaderless_cluster_def quiet_cluster_def)
  have "createTopics_attempt 4 leaderless_cluster orders_topics JUndefined JUndefined True [] =
     (Bail (KafkaJSTimeout [Lit ''Timed out while waiting for topic leaders'']),
      [RefreshMetadata, FindControllerBroker, ?c, ?m, ?m, ?m, ?m])"
    by (simp add: createTopics_attempt_def createTopics_try_def createTopics_catch_def
        bind_io_def request_def wait_for_leaders_def retryOnLeaderNotAvailable_def
        leader_callback_def leaders_timeout_message_def orders_topic_names
        leaderless_cluster_def quiet_cluster_def eval_nat_numeral)
  then have "retrier 3 (createTopics_attempt 4 leaderless_cluster orders_topics JUndefined
        JUndefined True) [] =
     (Inl (KafkaJSTimeout [Lit ''Timed out while waiting for topic leaders'']),
      [RefreshMetadata, FindControllerBroker, ?c, ?m, ?m, ?m, ?m])"
    by (rule retrier_first_bail)
  then have b: "createTopics 3 4 leaderless_cluster orders_topics JUndefined JUndefined True [] =
     (Inl (KafkaJSTimeout [Lit ''Timed out while waiting for topic leaders'']),
      [RefreshMetadata, FindControllerBroker, ?c, ?m, ?m, ?m, ?m])"
    by (simp add: createTopics_def orders_topics_valid)
  have c: "broker_createTopics moving_cluster [RefreshMetadata, FindControllerBroker] 1
       orders_topics JUndefined JUndefined = Inr ()"
    by (simp add: moving_cluster_def once_cluster_def quiet_cluster_def)
  have t1: "createTopics_attempt 4 moving_cluster orders_topics JUndefined JUndefined True [] =
     (Throw (KafkaJSProtocolError ''NOT_CONTROLLER''),
      [RefreshMetadata, FindControllerBroker, ?c, ?m])"
    by (simp add: createTopics_attempt_def createTopics_try_def createTopics_catch_def
        bind_io_def request_def wait_for_leaders_def retryOnLeaderNotAvailable_def
        leader_callback_def leaders_timeout_message_def orders_topic_names
        moving_cluster_def once_cluster_def quiet_cluster_def eval_nat_numeral)
  have t2: "createTopics_attempt 4 moving_cluster orders_topics JUndefined JUndefined True
       [RefreshMetadata, FindControllerBroker, ?c, ?m] =
     (Return False,
      [RefreshMetadata, FindControllerBroker, ?c, ?m, RefreshMetadata, FindControllerBroker, ?c])"
    by (simp add: createTopics_attempt_def createTopics_try_def createTopics_catch_def
        bind_io_def request_def moving_cluster_def once_cluster_def quiet_cluster_def)
  have "retrier 3 (createTopics_attempt 4 moving_cluster orders_topics JUndefined
        JUndefined True) [] =
     retrier 2 (createTopics_attempt 4 moving_cluster orders_topics JUndefined
        JUndefined True) [RefreshMetadata, FindControllerBroker, ?c, ?m]"
    using t1 by (simp add: numeral_3_eq_3 numeral_2_eq_2)
  also have "\<dots> = (Inr False,
      [RefreshMetadata, FindControllerBroker, ?c, ?m, RefreshMetadata, FindControllerBroker, ?c])"
    using t2 by (rule retrier_first_return)
  finally have d: "createTopics 3 4 moving_cluster orders_topics JUndefined JUndefined True [] =
     (Inr False,
      [RefreshMetadata, FindControllerBroker, ?c, ?m, RefreshMetadata, FindControllerBroker, ?c])"
    by (simp add: createTopics_def orders_topics_valid)
  show ?thesis
    by (rule conjI [OF a conjI [OF b conjI [OF c d]]])
qed

lemma leader_callback_not_yet:
  "fn tr = (Inl e, tr1) \<Longrightarrow> etype e = Some ''LEADER_NOT_AVAILABLE'' \<Longrightarrow>
   leader_callback fn tr = (Inr (JBool False), tr1)"
  by (simp add: leader_callback_def)

lemma leader_callback_other:
  "fn tr = (Inl e, tr1) \<Longrightarrow> etype e \<noteq> Some ''LEADER_NOT_AVAILABLE'' \<Longrightarrow>
   leader_callback fn tr = (Inl e, tr1)"
  by (simp add: leader_callback_def)

lemma waitFor_never_ready:
  assumes "\<And>h. f h = Inl (KafkaJSProtocolError ''LEADER_NOT_AVAILABLE'')"
  shows "waitFor n (leader_callback (request c f)) msg tr =
           (Inl (KafkaJSTimeout msg), tr @ replicate n c)"
proof (induction n arbitrary: tr)
  case 0
  show ?case by simp
next
  case (Suc n)
  have "leader_callback (request c f) tr = (Inr (JBool False), tr @ [c])"
    by (simp add: leader_callback_def request_def assms)
  then show ?case
    by (simp add: Suc.IH replicate_app_Cons_same)
qed

lemma wait_for_leaders_timeout:
  assumes "\<And>h. broker_metadata cl h b (topic_names topics) =
             Inl (KafkaJSProtocolError ''LEADER_NOT_AVAILABLE'')"
  shows "wait_for_leaders polls cl b topics tr =
           (Inl (KafkaJSTimeout [Lit ''Timed out while waiting for topic leaders'']),
            tr @ replicate polls (BrokerMetadata b (topic_names topics)))"
  unfolding wait_for_leaders_def retryOnLeaderNotAvailable_def leaders_timeout_message_def
  by (rule waitFor_never_ready) (rule assms)

lemma createTopics_attempt_Throw:
  "createTopics_attempt polls cl topics validateOnly timeout waitForLeaders tr = (Throw e, tr1)
   \<Longrightarrow> etype e = Some ''NOT_CONTROLLER''"
  by (auto simp: createTopics_attempt_def createTopics_catch_def
      split: prod.splits sum.splits if_splits)

text \<open>
  C6. In the leader poll an error of type LEADER_NOT_AVAILABLE from the metadata
  query becomes the value \<open>false\<close> and the loop goes on with one poll less; every
  other error leaves the loop as it is. When the polls are used up, \<open>createTopics\<close>
  fails with the message "Timed out while waiting for topic leaders" after a single
  attempt, whatever the number of outer retries; an error that the outer retrier
  retries, and so can end in its exhaustion, has the type NOT_CONTROLLER and is never
  this timeout.
\<close>

theorem leader_wait_is_separate_loop:
  "(fn tr = (Inl e, tr1) \<and> etype e = Some ''LEADER_NOT_AVAILABLE'' \<longrightarrow>
      leader_callback fn tr = (Inr (JBool False), tr1)
      \<and> retryOnLeaderNotAvailable (Suc n) fn msg tr = retryOnLeaderNotAvailable n fn msg tr1)
   \<and> (fn tr = (Inl e', tr1') \<and> etype e' \<noteq> Some ''LEADER_NOT_AVAILABLE'' \<longrightarrow>
      retryOnLeaderNotAvailable (Suc n) fn msg tr = (Inl e', tr1'))
   \<and> (createTopics_validate topics = None
      \<and> refreshMetadata cl tr0 = Inr ()
      \<and> findControllerBroker cl (tr0 @ [RefreshMetadata]) = Inr b
      \<and> broker_createTopics cl (tr0 @ [RefreshMetadata, FindControllerBroker]) b topics
           validateOnly timeout = Inr ()
      \<and> (\<forall>h. broker_metadata cl h b (topic_names topics) =
                Inl (KafkaJSProtocolError ''LEADER_NOT_AVAILABLE''))
      \<longrightarrow> createTopics retries polls cl topics validateOnly timeout True tr0 =
            (Inl (KafkaJSTimeout [Lit ''Timed out while waiting for topic leaders'']),
             tr0 @ [RefreshMetadata, FindControllerBroker,
                    BrokerCreateTopics b topics validateOnly timeout]
                 @ replicate polls (BrokerMetadata b (topic_names topics))))
   \<and> (createTopics_attempt polls cl' topics' validateOnly' timeout' waitForLeaders tr2 =
        (Throw e2, tr3)
      \<longrightarrow> etype e2 = Some ''NOT_CONTROLLER'' \<and> e2 \<noteq> KafkaJSTimeout msg')"
proof (intro conjI impI)
  assume a: "fn tr = (Inl e, tr1) \<and> etype e = Some ''LEADER_NOT_AVAILABLE''"
  then show cb: "leader_callback fn tr = (Inr (JBool False), tr1)"
    by (simp add: leader_callback_not_yet)
  then show "retryOnLeaderNotAvailable (Suc n) fn msg tr = retryOnLeaderNotAvailable n fn msg tr1"
    by (simp add: retryOnLeaderNotAvailable_def)
next
  assume "fn tr = (Inl e', tr1') \<and> etype e' \<noteq> Some ''LEADER_NOT_AVAILABLE''"
  then have "leader_callback fn tr = (Inl e', tr1')"
    by (simp add: leader_callback_other)
  then show "retryOnLeaderNotAvailable (Suc n) fn msg tr = (Inl e', tr1')"
    by (simp add: retryOnLeaderNotAvailable_def)
next
  let ?tr3 = "tr0 @ [RefreshMetadata, FindControllerBroker,
                     BrokerCreateTopics b topics validateOnly timeout]"
  let ?out = "(Inl (KafkaJSTimeout [Lit ''Timed out while waiting for topic leaders'']),
               ?tr3 @ replicate polls (BrokerMetadata b (topic_names topics)))"
  assume a: "createTopics_validate topics = None
      \<and> refreshMetadata cl tr0 = Inr ()
      \<and> findControllerBroker cl (tr0 @ [RefreshMetadata]) = Inr b
      \<and> broker_createTopics cl (tr0 @ [RefreshMetadata, FindControllerBroker]) b topics
           validateOnly timeout = Inr ()
      \<and> (\<forall>h. broker_metadata cl h b (topic_names topics) =
                Inl (KafkaJSProtocolError ''LEADER_NOT_AVAILABLE''))"
  then have w: "wait_for_leaders polls cl b topics ?tr3 =
      (Inl (KafkaJSTimeout [Lit ''Timed out while waiting for topic leaders'']),
       ?tr3 @ replicate polls (BrokerMetadata b (topic_names topics)))"
    by (simp add: wait_for_leaders_timeout)
  from a have "createTopics_try polls cl topics validateOnly timeout True tr0 =
      (Inl (KafkaJSTimeout [Lit ''Timed out while waiting for topic leaders'']),
       ?tr3 @ replicate polls (BrokerMetadata b (topic_names topics)))"
    by (simp add: createTopics_try_created w)
  then have "createTopics_attempt polls cl topics validateOnly timeout True tr0 =
      (Bail (KafkaJSTimeout [Lit ''Timed out while waiting for topic leaders'']),
       ?tr3 @ replicate polls (BrokerMetadata b (topic_names topics)))"
    by (simp add: createTopics_attempt_def createTopics_catch_def)
  then have "retrier retries (createTopics_attempt polls cl topics validateOnly timeout True) tr0 =
      (Inl (KafkaJSTimeout [Lit ''Timed out while waiting for topic leaders'']),
       ?tr3 @ replicate polls (BrokerMetadata b (topic_names topics)))"
    by (rule retrier_first_bail)
  with a show "createTopics retries polls cl topics validateOnly timeout True tr0 =
      (Inl (KafkaJSTimeout [Lit ''Timed out while waiting for topic leaders'']),
       tr0 @ [RefreshMetadata, FindControllerBroker,
              BrokerCreateTopics b topics validateOnly timeout]
           @ replicate polls (BrokerMetadata b (topic_names topics)))"
    by (simp add: createTopics_def)
next
  assume "createTopics_attempt polls cl' topics' validateOnly' timeout' waitForLeaders tr2 =
        (Throw e2, tr3)"
  then show t: "etype e2 = Some ''NOT_CONTROLLER''"
    by (rule createTopics_attempt_Throw)
  then show "e2 \<noteq> KafkaJSTimeout msg'" by auto
qed

theorem leader_wait_is_separate_loop_witness:
  "retryOnLeaderNotAvailable 3
       (request (BrokerMetadata 1 [JStr ''orders''])
          (\<lambda>h. broker_metadata leaderless_cluster h 1 [JStr ''orders'']))
       [Lit ''Timed out while waiting for topic leaders''] [] =
     retryOnLeaderNotAvailable 2
       (request (BrokerMetadata 1 [JStr ''orders''])
          (\<lambda>h. broker_metadata leaderless_cluster h 1 [JStr ''orders'']))
       [Lit ''Timed out while waiting for topic leaders''] [BrokerMetadata 1 [JStr ''orders'']]
   \<and> retryOnLeaderNotAvailable 3
       (request (BrokerMetadata 1 [JStr ''orders''])
          (\<lambda>h. broker_metadata unknown_cluster h 1 [JStr ''orders'']))
       [Lit ''Timed out while waiting for topic leaders''] [] =
     (Inl (KafkaJSProtocolError ''UNKNOWN_TOPIC_OR_PARTITION''), [BrokerMetadata 1 [JStr ''orders'']])
   \<and> createTopics 5 2 leaderless_cluster orders_topics JUndefined JUndefined True [] =
     (Inl (KafkaJSTimeout [Lit ''Timed out while waiting for topic leaders'']),
      [RefreshMetadata, FindControllerBroker,
       BrokerCreateTopics 1 orders_topics JUndefined JUndefined,
       BrokerMetadata 1 [JStr ''orders''], BrokerMetadata 1 [JStr ''orders'']])
   \<and> createTopics_attempt 2 moved_cluster orders_topics JUndefined JUndefined True [] =
     (Throw (KafkaJSProtocolError ''NOT_CONTROLLER''), [RefreshMetadata])
   \<and> createTopics 1 2 moved_cluster orders_topics JUndefined JUndefined True [] =
     (Inl (KafkaJSProtocolError ''NOT_CONTROLLER''), [RefreshMetadata, RefreshMetadata])"
proof -
  let ?c = "BrokerMetadata 1 [JStr ''orders'']"
  have t: "createTopics_attempt 2 moved_cluster orders_topics JUndefined JUndefined True [] =
     (Throw (KafkaJSProtocolError ''NOT_CONTROLLER''), [RefreshMetadata])"
    by (simp add: createTopics_attempt_def createTopics_try_def createTopics_catch_def
        bind_io_def request_def moved_cluster_def quiet_cluster_def)
  have t2: "createTopics_attempt 2 moved_cluster orders_topics JUndefined JUndefined True
       [RefreshMetadata] =
     (Throw (KafkaJSProtocolError ''NOT_CONTROLLER''), [RefreshMetadata, RefreshMetadata])"
    by (simp add: createTopics_attempt_def createTopics_try_def createTopics_catch_def
        bind_io_def request_def moved_cluster_def quiet_cluster_def)
  have ex: "createTopics 1 2 moved_cluster orders_topics JUndefined JUndefined True [] =
     (Inl (KafkaJSProtocolError ''NOT_CONTROLLER''), [RefreshMetadata, RefreshMetadata])"
    by (simp add: createTopics_def orders_topics_valid t t2)
  from leader_wait_is_separate_loop
    [where fn = "request ?c (\<lambda>h. broker_metadata leaderless_cluster h 1 [JStr ''orders''])"
       and tr = "[]" and e = "KafkaJSProtocolError ''LEADER_NOT_AVAILABLE''" and ?tr1.0 = "[?c]"
       and n = 2 and msg = "[Lit ''Timed out while waiting for topic leaders'']"
       and e' = "KafkaJSProtocolError ''UNKNOWN_TOPIC_OR_PARTITION''" and tr1' = "[?c]"
       and topics = orders_topics and cl = leaderless_cluster and ?tr0.0 = "[]" and b = 1
       and validateOnly = JUndefined and timeout = JUndefined and retries = 5 and polls = 2
       and cl' = moved_cluster and topics' = orders_topics and validateOnly' = JUndefined
       and timeout' = JUndefined and waitForLeaders = True and ?tr2.0 = "[]"
       and ?e2.0 = "KafkaJSProtocolError ''NOT_CONTROLLER''" and ?tr3.0 = "[RefreshMetadata]"
       and msg' = "[]"]
  have "retryOnLeaderNotAvailable 3
       (request ?c (\<lambda>h. broker_metadata leaderless_cluster h 1 [JStr ''orders'']))
       [Lit ''Timed out while waiting for topic leaders''] [] =
     retryOnLeaderNotAvailable 2
       (request ?c (\<lambda>h. broker_metadata leaderless_cluster h 1 [JStr ''orders'']))
       [Lit ''Timed out while waiting for topic leaders''] [?c]"
    and "createTopics 5 2 leaderless_cluster orders_topics JUndefined JUndefined True [] =
     (Inl (KafkaJSTimeout [Lit ''Timed out while waiting for topic leaders'']),
      [RefreshMetadata, FindControllerBroker,
       BrokerCreateTopics 1 orders_topics JUndefined JUndefined, ?c, ?c])"
    by (simp_all add: request_def leaderless_cluster_def quiet_cluster_def
        orders_topics_valid orders_topic_names numeral_3_eq_3 numeral_2_eq_2)
  moreover have "retryOnLeaderNotAvailable 3
       (request ?c (\<lambda>h. broker_metadata unknown_cluster h 1 [JStr ''orders'']))
       [Lit ''Timed out while waiting for topic leaders''] [] =
     (Inl (KafkaJSProtocolError ''UNKNOWN_TOPIC_OR_PARTITION''), [?c])"
    by (simp add: retryOnLeaderNotAvailable_def leader_callback_def request_def
        unknown_cluster_def quiet_cluster_def numeral_3_eq_3)
  ultimately show ?thesis using t ex by simp
qed

section \<open>Properties of the attempts of deleteGroups\<close>

lemma targeted_append [simp]: "targeted (a @ b) = targeted a @ targeted b"
  by (simp add: targeted_def)

lemma targeted_Nil [simp]: "targeted [] = []"
  by (simp add: targeted_def)

lemma targeted_Cons [simp]: "targeted (c # cs) = call_groups c @ targeted cs"
  by (simp add: targeted_def)



lemma issue_all_map:
  assumes mk: "\<And>x tr. mk x tr = (f x tr, tr @ [c x])"
  shows "issue_all (map mk xs) tr = (rs, tr2) \<Longrightarrow>
         tr2 = tr @ map c xs \<and> list_all2 (\<lambda>x r. \<exists>h. r = f x h) xs rs"
proof (induction xs arbitrary: tr rs tr2)
  case Nil
  then show ?case by simp
next
  case (Cons x xs)
  obtain rs' tr' where rest: "issue_all (map mk xs) (tr @ [c x]) = (rs', tr')"
    by fastforce
  with Cons.prems have rs: "rs = f x tr # rs'" and tr2: "tr2 = tr'"
    by (simp_all add: mk [of x tr])
  from Cons.IH [OF rest] rs tr2 show ?case by auto
qed

lemma issue_all_deletes:
  "issue_all
     (map (\<lambda>(nodeId, gs).
             request (BrokerDeleteGroups nodeId gs) (\<lambda>h. broker_deleteGroups cl h nodeId gs))
        bpg) tr = (rs, tr2) \<Longrightarrow>
   tr2 = tr @ map delete_call bpg
   \<and> list_all2 (\<lambda>p r. \<exists>h. r = broker_deleteGroups cl h (fst p) (snd p)) bpg rs"
  by (rule issue_all_map) (simp_all add: request_def delete_call_def split: prod.splits)


lemma first_rejection_Inr: "first_rejection rs = Inr vs \<Longrightarrow> rs = map Inr vs"
proof (induction rs arbitrary: vs)
  case Nil
  then show ?case by simp
next
  case (Cons r rs)
  then show ?case
    by (cases r) (auto split: sum.splits)
qed








lemma push_group_mset:
  "mset (concat (map snd (push_group n g acc))) = add_mset g (mset (concat (map snd acc)))"
  by (induction n g acc rule: push_group.induct) auto

lemma resolve_coordinators_mset:
  "resolve_coordinators cl gs acc tr = (Inr bpg, tr2) \<Longrightarrow>
   mset (concat (map snd bpg)) = mset (concat (map snd acc)) + mset gs"
proof (induction gs arbitrary: acc tr)
  case Nil
  then show ?case by (simp add: return_io_def)
next
  case (Cons g gs)
  from Cons.prems obtain broker where
    "resolve_coordinators cl gs (push_group broker g acc) (tr @ [FindGroupCoordinator g]) =
       (Inr bpg, tr2)"
    by (cases "findGroupCoordinator cl tr g") (simp_all add: bind_io_def request_def)
  from Cons.IH [OF this] show ?case
    by (simp add: push_group_mset)
qed

lemma answers_mset:
  assumes "answers_each_once cl"
  shows "list_all2 (\<lambda>p r. \<exists>h. r = broker_deleteGroups cl h (fst p) (snd p)) bpg (map Inr res)
         \<Longrightarrow> mset (map groupId (concat res)) = mset (concat (map snd bpg))"
proof (induction bpg arbitrary: res)
  case Nil
  then show ?case by simp
next
  case (Cons p bpg)
  from Cons.prems obtain v vs where res: "res = v # vs"
    and h: "\<exists>h. Inr v = broker_deleteGroups cl h (fst p) (snd p)"
    and rest: "list_all2 (\<lambda>p r. \<exists>h. r = broker_deleteGroups cl h (fst p) (snd p)) bpg
                 (map Inr vs)"
    by (cases res) auto
  from h assms have "mset (map groupId v) = mset (snd p)"
    by (metis answers_each_once_def)
  with Cons.IH [OF rest] res show ?case by simp
qed

lemma deleteGroups_fanout_mset:
  assumes fan: "deleteGroups_fanout cl ids tr = (Inr res, tr2)"
    and sane: "answers_each_once cl"
  shows "mset (map groupId (concat res)) = mset ids"
proof -
  from fan obtain u where u: "refreshMetadata cl tr = Inr u"
    by (cases "refreshMetadata cl tr")
       (simp_all add: deleteGroups_fanout_def bind_io_def request_def)
  obtain r1 tr1 where res: "resolve_coordinators cl ids [] (tr @ [RefreshMetadata]) = (r1, tr1)"
    by fastforce
  from fan u res obtain bpg where bpg: "r1 = Inr bpg"
    by (cases r1) (simp_all add: deleteGroups_fanout_def bind_io_def request_def)
  from resolve_coordinators_mset res bpg have m: "mset (concat (map snd bpg)) = mset ids"
    by fastforce
  obtain rs tr3 where ia:
    "issue_all
       (map (\<lambda>(nodeId, gs).
               request (BrokerDeleteGroups nodeId gs)
                 (\<lambda>h. broker_deleteGroups cl h nodeId gs)) bpg) tr1 = (rs, tr3)"
    by fastforce
  with fan u res bpg have fr: "first_rejection rs = Inr res"
    by (simp add: deleteGroups_fanout_def bind_io_def request_def promise_all_def)
  from issue_all_deletes [OF ia] first_rejection_Inr [OF fr]
  have "list_all2 (\<lambda>p r. \<exists>h. r = broker_deleteGroups cl h (fst p) (snd p)) bpg (map Inr res)"
    by simp
  from answers_mset [OF sane this] m show ?thesis by simp
qed

lemma deleteGroups_catch_Throw:
  "deleteGroups_catch e = Throw e' \<Longrightarrow> retriable_type (etype e)"
  by (auto simp: deleteGroups_catch_def rethrow_or_bail_def retriable_type_def
      split: option.splits if_splits)

lemma deleteGroups_attempt_Throw:
  assumes "deleteGroups_attempt dgType cl (tr, ids) = (Throw e, (tr2, ids2))"
    and "\<not> retriable_type dgType"
  shows "ids2 = ids"
proof (cases "ids = []")
  case True
  with assms show ?thesis by (simp add: deleteGroups_attempt_def)
next
  case False
  obtain r tr1 where fan: "deleteGroups_fanout cl ids tr = (r, tr1)" by fastforce
  show ?thesis
  proof (cases r)
    case (Inl e1)
    with assms False fan show ?thesis by (simp add: deleteGroups_attempt_def)
  next
    case (Inr res)
    with assms(1) False fan have
      "(deleteGroups_catch
         (KafkaJSDeleteGroupsError dgType [Lit ''Error in DeleteGroups''] (failed_results res))
        :: group_result list outcome) = Throw e"
      by (auto simp: deleteGroups_attempt_def Let_def split: if_splits)
    from deleteGroups_catch_Throw [OF this] assms(2) show ?thesis by simp
  qed
qed

lemma deleteGroups_retrier_Inr:
  assumes "\<not> retriable_type dgType"
  shows "retrier n (deleteGroups_attempt dgType cl) (tr, ids) = (Inr v, s') \<Longrightarrow>
         \<exists>tr0. deleteGroups_attempt dgType cl (tr0, ids) = (Return v, s')"
proof (induction n arbitrary: tr)
  case 0
  then show ?case
    by (cases "deleteGroups_attempt dgType cl (tr, ids)") (auto split: outcome.splits)
next
  case (Suc n)
  obtain out tr1 ids1 where att: "deleteGroups_attempt dgType cl (tr, ids) = (out, (tr1, ids1))"
    by (metis prod.exhaust)
  show ?case
  proof (cases out)
    case (Return v1)
    with Suc.prems att show ?thesis by auto
  next
    case (Throw e)
    with att assms have "ids1 = ids" by (auto dest: deleteGroups_attempt_Throw)
    with Suc.prems att Throw have
      "retrier n (deleteGroups_attempt dgType cl) (tr1, ids) = (Inr v, s')" by simp
    from Suc.IH [OF this] show ?thesis .
  next
    case (Bail e)
    with Suc.prems att show ?thesis by simp
  qed
qed

lemma deleteGroups_attempt_Return:
  assumes "deleteGroups_attempt dgType cl (tr, ids) = (Return v, s')"
  shows "(ids = [] \<and> v = []) \<or> (\<exists>res tr2. deleteGroups_fanout cl ids tr = (Inr res, tr2)
           \<and> v = concat res \<and> failed_results res = [])"
proof (cases "ids = []")
  case True
  with assms show ?thesis by (simp add: deleteGroups_attempt_def)
next
  case False
  obtain r tr1 where fan: "deleteGroups_fanout cl ids tr = (r, tr1)" by fastforce
  show ?thesis
  proof (cases r)
    case (Inl e1)
    with assms False fan show ?thesis
      by (auto simp: deleteGroups_attempt_def deleteGroups_catch_def rethrow_or_bail_def
          split: option.splits if_splits)
  next
    case (Inr res)
    with assms False fan show ?thesis
      by (auto simp: deleteGroups_attempt_def Let_def deleteGroups_catch_def
          rethrow_or_bail_def split: option.splits if_splits)
  qed
qed

text \<open>
  When the KafkaJSDeleteGroupsError does not carry one of the two retriable types, only
  an error of a call (lookup, refresh or delete) is retried, and such an error leaves
  \<^verbatim>\<open>clonedGroupIds\<close> as it was. With brokers that answer each requested group once,
  a call with distinct ids that resolves then resolves to one entry per requested id,
  all with error code 0.
\<close>

lemma deleteGroups_resolves_every_group:
  assumes ok: "deleteGroups dgType retries cl groupIds tr = (Inr results, tr')"
    and fatal: "\<not> retriable_type dgType"
    and sane: "answers_each_once cl"
    and dist: "distinct (elems groupIds)"
  shows "length results = length (elems groupIds)
       \<and> mset (map groupId results) = mset (map the_string (elems groupIds))
       \<and> distinct (map groupId results)
       \<and> list_all (\<lambda>r. errorCode r = 0) results"
proof -
  let ?ids = "map the_string (elems groupIds)"
  from ok have valid: "deleteGroups_validate groupIds = None"
    by (auto simp: deleteGroups_def split: option.splits)
  then have strs: "\<forall>x \<in> set (elems groupIds). typeof x = ''string''"
    by (auto simp: deleteGroups_validate_def Let_def list_ex_iff split: if_splits)
  have "inj_on the_string (set (elems groupIds))"
  proof (rule inj_onI)
    fix x y assume "x \<in> set (elems groupIds)" "y \<in> set (elems groupIds)"
      "the_string x = the_string y"
    with strs show "x = y" by (cases x; cases y) auto
  qed
  with dist have dids: "distinct ?ids" by (simp add: distinct_map)
  from ok valid obtain s' where
    "retrier retries (deleteGroups_attempt dgType cl) (tr, ?ids) = (Inr results, s')"
    by (auto simp: deleteGroups_def split: prod.splits)
  from deleteGroups_retrier_Inr [OF fatal this] obtain tr0 where
    "deleteGroups_attempt dgType cl (tr0, ?ids) = (Return results, s')" ..
  from deleteGroups_attempt_Return [OF this]
  have m: "mset (map groupId results) = mset ?ids" and z: "list_all (\<lambda>r. errorCode r = 0) results"
  proof -
    assume a: "(?ids = [] \<and> results = []) \<or>
      (\<exists>res tr2. deleteGroups_fanout cl ?ids tr0 = (Inr res, tr2)
           \<and> results = concat res \<and> failed_results res = [])"
    then show "mset (map groupId results) = mset ?ids"
      using deleteGroups_fanout_mset [OF _ sane] by auto
    from a show "list_all (\<lambda>r. errorCode r = 0) results"
      by (auto simp: failed_results_def filter_empty_conv list_all_iff)
  qed
  from m have "length (map groupId results) = length ?ids"
    by (metis size_mset)
  moreover have "distinct (map groupId results)"
    by (rule iffD2 [OF mset_eq_imp_distinct_iff [OF m] dids])
  ultimately show ?thesis using m z by simp
qed

lemma retrier_Throw_step:
  "fn s = (Throw e, s1) \<Longrightarrow> retrier (Suc n) fn s = retrier n fn s1"
  by simp




lemma split_first_attempt:
  "deleteGroups_attempt None split_cluster ([], [''g1'', ''g2'']) =
     (Throw (KafkaJSProtocolError ''COORDINATOR_NOT_AVAILABLE''),
      ([RefreshMetadata, FindGroupCoordinator ''g1'', FindGroupCoordinator ''g2'',
        BrokerDeleteGroups 1 [''g1''], BrokerDeleteGroups 2 [''g2'']], [''g1'', ''g2'']))"
  by (simp add: deleteGroups_attempt_def deleteGroups_fanout_def bind_io_def request_def
      return_io_def promise_all_def failed_results_def split_cluster_def quiet_cluster_def
      deleteGroups_catch_def rethrow_or_bail_def)

lemma split_second_attempt:
  "deleteGroups_attempt None split_cluster
     ([RefreshMetadata, FindGroupCoordinator ''g1'', FindGroupCoordinator ''g2'',
       BrokerDeleteGroups 1 [''g1''], BrokerDeleteGroups 2 [''g2'']], [''g1'', ''g2'']) =
     (Return [GroupResult ''g1'' 0 JNull, GroupResult ''g2'' 0 JNull],
      ([RefreshMetadata, FindGroupCoordinator ''g1'', FindGroupCoordinator ''g2'',
        BrokerDeleteGroups 1 [''g1''], BrokerDeleteGroups 2 [''g2''],
        RefreshMetadata, FindGroupCoordinator ''g1'', FindGroupCoordinator ''g2'',
        BrokerDeleteGroups 1 [''g1''], BrokerDeleteGroups 2 [''g2'']], []))"
  by (simp add: deleteGroups_attempt_def deleteGroups_fanout_def bind_io_def request_def
      return_io_def promise_all_def failed_results_def split_cluster_def quiet_cluster_def)

lemma split_run:
  "deleteGroups None 3 split_cluster (JArr [JStr ''g1'', JStr ''g2'']) [] =
     (Inr [GroupResult ''g1'' 0 JNull, GroupResult ''g2'' 0 JNull],
      [RefreshMetadata, FindGroupCoordinator ''g1'', FindGroupCoordinator ''g2'',
       BrokerDeleteGroups 1 [''g1''], BrokerDeleteGroups 2 [''g2''],
       RefreshMetadata, FindGroupCoordinator ''g1'', FindGroupCoordinator ''g2'',
       BrokerDeleteGroups 1 [''g1''], BrokerDeleteGroups 2 [''g2'']])"
proof -
  have v: "deleteGroups_validate (JArr [JStr ''g1'', JStr ''g2'']) = None"
    by (simp add: deleteGroups_validate_def)
  have ids: "map the_string (elems (JArr [JStr ''g1'', JStr ''g2''])) = [''g1'', ''g2'']"
    by simp
  have "retrier (Suc (Suc (Suc 0))) (deleteGroups_attempt None split_cluster)
          ([], [''g1'', ''g2'']) =
        retrier (Suc (Suc 0)) (deleteGroups_attempt None split_cluster)
          ([RefreshMetadata, FindGroupCoordinator ''g1'', FindGroupCoordinator ''g2'',
            BrokerDeleteGroups 1 [''g1''], BrokerDeleteGroups 2 [''g2'']], [''g1'', ''g2''])"
    by (rule retrier_Throw_step
          [where fn = "deleteGroups_attempt None split_cluster", OF split_first_attempt])
  also have "\<dots> =
        (Inr [GroupResult ''g1'' 0 JNull, GroupResult ''g2'' 0 JNull],
         ([RefreshMetadata, FindGroupCoordinator ''g1'', FindGroupCoordinator ''g2'',
           BrokerDeleteGroups 1 [''g1''], BrokerDeleteGroups 2 [''g2''],
           RefreshMetadata, FindGroupCoordinator ''g1'', FindGroupCoordinator ''g2'',
           BrokerDeleteGroups 1 [''g1''], BrokerDeleteGroups 2 [''g2'']], []))"
    by (rule retrier_first_return
          [where fn = "deleteGroups_attempt None split_cluster", OF split_second_attempt])
  finally show ?thesis
    unfolding deleteGroups_def v ids numeral_3_eq_3 by simp
qed

lemma deleteGroups_resolves_every_group_example:
  "deleteGroups None 3 split_cluster (JArr [JStr ''g1'', JStr ''g2'']) [] =
     (Inr [GroupResult ''g1'' 0 JNull, GroupResult ''g2'' 0 JNull],
      [RefreshMetadata, FindGroupCoordinator ''g1'', FindGroupCoordinator ''g2'',
       BrokerDeleteGroups 1 [''g1''], BrokerDeleteGroups 2 [''g2''],
       RefreshMetadata, FindGroupCoordinator ''g1'', FindGroupCoordinator ''g2'',
       BrokerDeleteGroups 1 [''g1''], BrokerDeleteGroups 2 [''g2'']])
   \<and> length [GroupResult ''g1'' 0 JNull, GroupResult ''g2'' 0 JNull] =
       length (elems (JArr [JStr ''g1'', JStr ''g2'']))
   \<and> mset (map groupId [GroupResult ''g1'' 0 JNull, GroupResult ''g2'' 0 JNull]) =
       mset (map the_string (elems (JArr [JStr ''g1'', JStr ''g2''])))
   \<and> distinct (map groupId [GroupResult ''g1'' 0 JNull, GroupResult ''g2'' 0 JNull])
   \<and> list_all (\<lambda>r. errorCode r = 0) [GroupResult ''g1'' 0 JNull, GroupResult ''g2'' 0 JNull]"
proof -
  have fatal: "\<not> retriable_type None"
    by (simp add: retriable_type_def)
  have "map groupId r = gs" if "broker_deleteGroups split_cluster h n gs = Inr r" for h n gs r
    using that by (auto simp: split_cluster_def comp_def split: if_splits)
  then have sane: "answers_each_once split_cluster"
    unfolding answers_each_once_def by metis
  have dist: "distinct (elems (JArr [JStr ''g1'', JStr ''g2'']))"
    by simp
  note every = deleteGroups_resolves_every_group [OF split_run fatal sane dist]
  show ?thesis by (rule conjI [OF split_run every])
qed








end
